theory Spec2Isabelle
  imports Main "HOL-Library.Word" "HOL-Library.Signed_Division"
begin

section \<open>Values\<close>

text \<open>
  Go's \<open>int\<close> and \<open>int64\<close> are 64-bit two's complement integers (a 64-bit platform is
  taken for \<open>int\<close>): addition, subtraction, multiplication and negation wrap around.
\<close>

type_synonym int64 = "64 word"

text \<open>
  A Go slice \<open>[]*Data\<close>: the address of its backing array, the offset of its first element
  in that array, its length and its capacity.
\<close>

record slice =
  arr :: nat
  off :: nat
  len :: nat
  cap :: nat

text \<open>
  The tagged datum \<open>*Data\<close>. \<open>DNil\<close> is the nil pointer. Closures, primitives and host
  objects are opaque here; a float carries its 64 bits.
\<close>

datatype data =
    DNil
  | DBoolean bool
  | DInteger int64
  | DFloat int64
  | DString string
  | DSymbol string
  | DCons data data
  | DVector slice
  | DFunction string
  | DPrimitive string
  | DObject nat

datatype data_type =
    NilType | BooleanType | NumberType | FloatType | StringType | SymbolType
  | ConsCellType | VectorType | FunctionType | PrimitiveType | ObjectType

text \<open>
  Modelled from the spec: the type predicates, constructors and accessors of the value
  representation (section 4.1), whose Go source is not part of the files at hand.
  \<open>NumberType\<close> is the tag of integer numbers; \<open>NumberWithValue\<close> and
  \<open>IntegerWithValue\<close> wrap a native integer, \<open>IntValue\<close> and \<open>IntegerValue\<close> unwrap it.
  An accessor applied to a value of another kind yields the zero value of its result type.
\<close>

fun TypeOf :: "data \<Rightarrow> data_type" where
  "TypeOf DNil = NilType"
| "TypeOf (DBoolean b) = BooleanType"
| "TypeOf (DInteger n) = NumberType"
| "TypeOf (DFloat f) = FloatType"
| "TypeOf (DString s) = StringType"
| "TypeOf (DSymbol s) = SymbolType"
| "TypeOf (DCons a d) = ConsCellType"
| "TypeOf (DVector v) = VectorType"
| "TypeOf (DFunction f) = FunctionType"
| "TypeOf (DPrimitive p) = PrimitiveType"
| "TypeOf (DObject x) = ObjectType"

definition NumberWithValue :: "int64 \<Rightarrow> data" where
  "NumberWithValue n = DInteger n"

definition IntegerWithValue :: "int64 \<Rightarrow> data" where
  "IntegerWithValue n = DInteger n"

definition StringWithValue :: "string \<Rightarrow> data" where
  "StringWithValue s = DString s"

definition VectorWithValue :: "slice \<Rightarrow> data" where
  "VectorWithValue v = DVector v"

fun IntValue :: "data \<Rightarrow> int64" where
  "IntValue (DInteger n) = n"
| "IntValue d = 0"

definition IntegerValue :: "data \<Rightarrow> int64" where
  "IntegerValue d = IntValue d"

definition IntegerP :: "data \<Rightarrow> bool" where
  "IntegerP d = (TypeOf d = NumberType)"

definition VectorP :: "data \<Rightarrow> bool" where
  "VectorP d = (TypeOf d = VectorType)"

fun VectorValue :: "data \<Rightarrow> slice" where
  "VectorValue (DVector v) = v"
| "VectorValue d = \<lparr>arr = 0, off = 0, len = 0, cap = 0\<rparr>"

text \<open>
  Modelled from the spec: an argument list is a chain of pairs terminated by nil
  (section 3). It is a HOL list here: \<open>NotNilP c\<close> is \<open>c \<noteq> []\<close>, \<open>Car\<close> and \<open>Cdr\<close> are head
  and tail, both nil on the empty chain, \<open>Length\<close> counts the elements, \<open>First\<close> to
  \<open>Third\<close> (and \<open>Cadr\<close>, \<open>Caddr\<close>, \<open>Cdddr\<close>) select by position, nil where the chain is
  too short.
\<close>

fun Car :: "data list \<Rightarrow> data" where
  "Car [] = DNil"
| "Car (a # d) = a"

fun Cdr :: "data list \<Rightarrow> data list" where
  "Cdr [] = []"
| "Cdr (a # d) = d"

definition NotNilP :: "data list \<Rightarrow> bool" where
  "NotNilP c = (c \<noteq> [])"

definition Length :: "data list \<Rightarrow> nat" where
  "Length c = length c"

definition Cadr :: "data list \<Rightarrow> data" where
  "Cadr c = Car (Cdr c)"

definition Caddr :: "data list \<Rightarrow> data" where
  "Caddr c = Car (Cdr (Cdr c))"

definition Cdddr :: "data list \<Rightarrow> data list" where
  "Cdddr c = Cdr (Cdr (Cdr c))"

definition First :: "data list \<Rightarrow> data" where
  "First c = Car c"

definition Second :: "data list \<Rightarrow> data" where
  "Second c = Car (Cdr c)"

definition Third :: "data list \<Rightarrow> data" where
  "Third c = Car (Cdr (Cdr c))"

section \<open>Outcomes of a Go call\<close>

text \<open>
  A call returns, or it raises a run-time panic (a native fault), or it never returns to
  its caller. A Go \<open>error\<close> is its message, \<open>None\<close> being the nil error; a primitive
  returns the pair \<open>(result, err)\<close>, with \<open>DNil\<close> for an absent result.
\<close>

datatype fault = DivideByZero | IndexOutOfRange | MakeSliceLenOutOfRange

datatype 'a go = Returns 'a | Panics fault | NoReturn

type_synonym go_error = "string option"

type_synonym ret = "data \<times> go_error"

section \<open>Arithmetic primitives\<close>

text \<open>
  Go's \<open>/\<close> on \<open>int\<close>: the quotient truncated towards zero, wrapping for the most
  negative dividend and divisor \<open>-1\<close>; a zero divisor is the run-time panic
  "integer divide by zero".
\<close>

definition quo :: "int64 \<Rightarrow> int64 \<Rightarrow> int64" where
  "quo a b = word_of_int (sint a sdiv sint b)"

definition go_quo :: "int64 \<Rightarrow> int64 \<Rightarrow> int64 go" where
  "go_quo a b = (if b = 0 then Panics DivideByZero else Returns (quo a b))"

text \<open>The loop of \<open>Add\<close>: \<open>for c := args; NotNilP(c); c = Cdr(c)\<close>.\<close>

fun Add_loop :: "data list \<Rightarrow> int64 \<Rightarrow> ret" where
  "Add_loop [] acc = (NumberWithValue acc, None)"
| "Add_loop (x # c) acc =
     (if TypeOf x \<noteq> NumberType then (DNil, Some ''Number expected'')
      else Add_loop c (acc + IntValue x))"

definition Add :: "data list \<Rightarrow> ret go" where
  "Add args = Returns (Add_loop args 0)"

fun Subtract_loop :: "data list \<Rightarrow> int64 \<Rightarrow> ret" where
  "Subtract_loop [] acc = (NumberWithValue acc, None)"
| "Subtract_loop (x # c) acc =
     (if TypeOf x \<noteq> NumberType then (DNil, Some ''Number expected'')
      else Subtract_loop c (acc - IntValue x))"

definition Subtract :: "data list \<Rightarrow> ret go" where
  "Subtract args =
     (if TypeOf (Car args) \<noteq> NumberType then Returns (DNil, Some ''Number expected'')
      else if Length args = 1 then Returns (NumberWithValue (- IntValue (Car args)), None)
      else Returns (Subtract_loop (Cdr args) (IntValue (Car args))))"

fun Multiply_loop :: "data list \<Rightarrow> int64 \<Rightarrow> ret" where
  "Multiply_loop [] acc = (NumberWithValue acc, None)"
| "Multiply_loop (x # c) acc =
     (if TypeOf x \<noteq> NumberType then (DNil, Some ''Number expected'')
      else Multiply_loop c (acc * IntValue x))"

definition Multiply :: "data list \<Rightarrow> ret go" where
  "Multiply args = Returns (Multiply_loop args 1)"

fun Quotient_loop :: "data list \<Rightarrow> int64 \<Rightarrow> ret go" where
  "Quotient_loop [] acc = Returns (NumberWithValue acc, None)"
| "Quotient_loop (x # c) acc =
     (if TypeOf x \<noteq> NumberType then Returns (DNil, Some ''Number expected'')
      else (case go_quo acc (IntValue x) of
              Returns q \<Rightarrow> Quotient_loop c q
            | Panics f \<Rightarrow> Panics f
            | NoReturn \<Rightarrow> NoReturn))"

definition Quotient :: "data list \<Rightarrow> ret go" where
  "Quotient args =
     (if TypeOf (Car args) \<noteq> NumberType then Returns (DNil, Some ''Number expected'')
      else Quotient_loop (Cdr args) (IntValue (Car args)))"

section \<open>The conditional special form\<close>

text \<open>
  \<open>If\<close> of the builtins file, named \<open>If_form\<close> here. The evaluator \<open>Eval\<close> of one
  argument and the accessor \<open>BooleanValue\<close> are not part of the files at hand: they are
  parameters, \<open>Eval1\<close> being any function from an expression and the interpreter's state
  \<open>'s\<close> to a value and the next state. The condition is evaluated before the check for a
  trailing clause, as in the source.
\<close>

definition If_form ::
  "(data \<Rightarrow> 's \<Rightarrow> data \<times> 's) \<Rightarrow> (data \<Rightarrow> bool) \<Rightarrow> data list \<Rightarrow> 's \<Rightarrow> ret \<times> 's" where
  "If_form Eval1 BooleanValue args s =
     (let (c, s1) = Eval1 (Car args) s;
          condition = BooleanValue c;
          thenClause = Cadr args;
          elseClause = Caddr args
      in if Cdddr args \<noteq> [] then ((DNil, Some ''Too many arguments to IF''), s1)
         else if condition then (let (r, s2) = Eval1 thenClause s1 in ((r, None), s2))
         else (let (r, s2) = Eval1 elseClause s1 in ((r, None), s2)))"

text \<open>
  An evaluator that also records, in order, every expression it is asked to evaluate.
\<close>

definition logged ::
  "(data \<Rightarrow> 's \<Rightarrow> data \<times> 's) \<Rightarrow> data \<Rightarrow> 's \<times> data list \<Rightarrow> data \<times> ('s \<times> data list)" where
  "logged Eval1 e sl = (fst (Eval1 e (fst sl)), (snd (Eval1 e (fst sl)), snd sl @ [e]))"

section \<open>The debugger\<close>

datatype SymbolTableFrame =
  Frame (Bindings: "(string \<times> data) list") (Parent: "SymbolTableFrame option")

text \<open>
  The process-wide variables of the debugger, and the memory that slices point into:
  \<open>heap\<close> maps the address of a backing array to its elements, \<open>brk\<close> is the next
  address that an allocation returns.
\<close>

record world =
  DebugTrace :: bool
  DebugOnError :: bool
  IsInteractive :: bool
  DebugEvalInDebugRepl :: bool
  DebugSingleStep :: bool
  DebugCurrentFrame :: "SymbolTableFrame option"
  DebugReturnValue :: data
  heap :: "nat \<Rightarrow> data list"
  brk :: nat

text \<open>
  What a call of the evaluator does: it returns a result and an error, in a new world; or
  it panics, the world being as it was when the panic was raised; or it never returns.
\<close>

datatype evaluation = Evaluated ret world | EvalPanics world | EvalDiverges

text \<open>
  The collaborators that are not part of the files at hand, as parameters: the reader
  \<open>Parse\<close>, which may also panic or not return; the evaluator \<open>Eval\<close> of an expression
  in a frame (any function of the world); the textual rendering \<open>String\<close> of a value; and
  \<open>MaxSliceLen\<close>, the constant of the Go runtime that is the largest length for which
  \<open>make([]*Data, n)\<close> allocates (beyond it \<open>make\<close> panics; that an allocation within
  it finds the memory it needs is taken for granted). What the debugger prints is not
  modelled.
\<close>

record runtime =
  Parse :: "string \<Rightarrow> (data \<times> go_error) go"
  Eval :: "data \<Rightarrow> SymbolTableFrame \<Rightarrow> world \<Rightarrow> evaluation"
  String :: "data \<Rightarrow> string"
  MaxSliceLen :: nat

definition DebugCommandPrefix :: string where
  "DebugCommandPrefix = '':''"

text \<open>Go's \<open>strings.HasPrefix\<close>, \<open>strings.TrimPrefix\<close>, \<open>strings.Split\<close> and
  \<open>strings.Join\<close>, the last two for a separator of one character.\<close>

definition HasPrefix :: "string \<Rightarrow> string \<Rightarrow> bool" where
  "HasPrefix s p = (take (length p) s = p)"

definition TrimPrefix :: "string \<Rightarrow> string \<Rightarrow> string" where
  "TrimPrefix s p = (if HasPrefix s p then drop (length p) s else s)"

fun Split :: "string \<Rightarrow> char \<Rightarrow> string list" where
  "Split [] sep = [[]]"
| "Split (c # cs) sep =
     (if c = sep then [] # Split cs sep
      else (case Split cs sep of [] \<Rightarrow> [[c]] | t # ts \<Rightarrow> (c # t) # ts))"

fun Join :: "string list \<Rightarrow> char \<Rightarrow> string" where
  "Join [] sep = []"
| "Join [t] sep = t"
| "Join (t # u # ts) sep = t @ sep # Join (u # ts) sep"

definition processState :: "string list \<Rightarrow> bool \<times> bool" where
  "processState tokens =
     (if length tokens \<noteq> 2 then (False, False)
      else if tokens ! 1 = ''on'' then (True, True)
      else if tokens ! 1 = ''off'' then (True, False)
      else (False, False))"

text \<open>
  One pass through the body of the loop of \<open>DebugRepl\<close>, for the line read: the loop
  goes on; or \<open>DebugRepl\<close> returns by a \<open>return\<close> statement; or a panic is raised in
  the body, which the deferred function of the loop recovers, so that \<open>DebugRepl\<close>
  returns with the world as the panic left it; or the pass never ends (the command \<open>q\<close>
  ends the process, and the reader or the evaluator may not return).
\<close>

datatype action = Continue world | Return world | Recover world | Quit

definition DebugRepl_body :: "runtime \<Rightarrow> SymbolTableFrame \<Rightarrow> string \<Rightarrow> world \<Rightarrow> action" where
  "DebugRepl_body rt env input w =
     (if input \<noteq> [] then
        (if HasPrefix input DebugCommandPrefix then
           (let cmd = TrimPrefix input DebugCommandPrefix;
                tokens = Split cmd (CHR '' '');
                t0 = hd tokens
            in if t0 = ''?'' then Continue w
               else if t0 = ''b'' then Continue w
               else if t0 = ''c'' then
                 Return (w\<lparr>DebugCurrentFrame := None, DebugSingleStep := False,
                           DebugEvalInDebugRepl := False\<rparr>)
               else if t0 = ''d'' then Continue w
               else if t0 = ''e'' then
                 (let (ok, state) = processState tokens
                  in if ok then Continue (w\<lparr>DebugOnError := state\<rparr>) else Continue w)
               else if t0 = ''f'' then Continue w
               else if t0 = ''q'' then Quit
               else if t0 = ''r'' then
                 (let w1 = w\<lparr>DebugEvalInDebugRepl := True\<rparr>
                  in case Parse rt (Join (tl tokens) (CHR '' '')) of
                       Panics f \<Rightarrow> Recover w1
                     | NoReturn \<Rightarrow> Quit
                     | Returns (code, perr) \<Rightarrow>
                         (case Eval rt code env w1 of
                            EvalPanics wp \<Rightarrow> Recover wp
                          | EvalDiverges \<Rightarrow> Quit
                          | Evaluated (d, err) w2 \<Rightarrow>
                              (let w3 = w2\<lparr>DebugEvalInDebugRepl := False\<rparr>
                               in if err \<noteq> None then Continue w3
                                  else Return (w3\<lparr>DebugReturnValue := d,
                                                 DebugCurrentFrame := None,
                                                 DebugSingleStep := False,
                                                 DebugEvalInDebugRepl := False\<rparr>))))
               else if t0 = ''s'' then Return (w\<lparr>DebugSingleStep := True\<rparr>)
               else if t0 = ''t'' then
                 (let (ok, state) = processState tokens
                  in if ok then Continue (w\<lparr>DebugTrace := state\<rparr>) else Continue w)
               else if t0 = ''u'' then
                 (if Parent env \<noteq> None then Return (w\<lparr>DebugCurrentFrame := Some env\<rparr>)
                  else Continue w)
               else Continue w)
         else
           (case Parse rt input of
              Panics f \<Rightarrow> Recover w
            | NoReturn \<Rightarrow> Quit
            | Returns (code, err) \<Rightarrow>
                if err \<noteq> None then Continue w
                else (let w1 = w\<lparr>DebugEvalInDebugRepl := True\<rparr>
                      in case Eval rt code env w1 of
                           EvalPanics wp \<Rightarrow> Recover wp
                         | EvalDiverges \<Rightarrow> Quit
                         | Evaluated (d, err2) w2 \<Rightarrow>
                             Continue (w2\<lparr>DebugEvalInDebugRepl := False\<rparr>))))
      else Continue w)"

text \<open>
  \<open>DebugRepl\<close> reads its lines from the list given, the lines still to come at the
  prompt, and returns the world and the lines left. With no line left the blocking read
  never returns; nor does the loop return after the command \<open>q\<close>, which ends the
  process. A panic raised in the body is recovered by the function that the loop defers:
  \<open>DebugRepl\<close> then returns to its caller, with nothing done of what the body had yet to
  do (after a panic of the evaluator \<open>DebugEvalInDebugRepl\<close> stays set, and no override
  result is stored).
\<close>

fun DebugRepl ::
  "runtime \<Rightarrow> SymbolTableFrame \<Rightarrow> string list \<Rightarrow> world \<Rightarrow> (world \<times> string list) go" where
  "DebugRepl rt env [] w = NoReturn"
| "DebugRepl rt env (input # rest) w =
     (case DebugRepl_body rt env input w of
        Continue w' \<Rightarrow> DebugRepl rt env rest w'
      | Return w' \<Rightarrow> Returns (w', rest)
      | Recover w' \<Rightarrow> Returns (w', rest)
      | Quit \<Rightarrow> NoReturn)"

text \<open>
  The lines \<open>pre\<close>, read one after the other from the world \<open>w\<close>, each leave the loop
  of \<open>DebugRepl\<close> running: \<open>run_lines\<close> is then the world that the next line is read in.
\<close>

fun run_lines :: "runtime \<Rightarrow> SymbolTableFrame \<Rightarrow> string list \<Rightarrow> world \<Rightarrow> world option" where
  "run_lines rt env [] w = Some w"
| "run_lines rt env (input # pre) w =
     (case DebugRepl_body rt env input w of
        Continue w' \<Rightarrow> run_lines rt env pre w'
      | Return w' \<Rightarrow> None
      | Recover w' \<Rightarrow> None
      | Quit \<Rightarrow> None)"

definition ProcessError ::
  "runtime \<Rightarrow> string \<Rightarrow> SymbolTableFrame \<Rightarrow> world \<Rightarrow> string list
     \<Rightarrow> (go_error \<times> world \<times> string list) go" where
  "ProcessError rt errorMessage env w ls =
     (if DebugOnError w \<and> IsInteractive w \<and> \<not> DebugEvalInDebugRepl w then
        (case DebugRepl rt env ls w of
           Returns (w', ls') \<Rightarrow> Returns (None, w', ls')
         | Panics f \<Rightarrow> Panics f
         | NoReturn \<Rightarrow> NoReturn)
      else Returns (Some errorMessage, w, ls))"

section \<open>Vector primitives\<close>

text \<open>
  \<open>fmt.Sprintf\<close> of an integer with the verb \<open>%d\<close>, and with the verb \<open>%s\<close>, which
  Go renders as a bad-verb notice for an \<open>int64\<close>.
\<close>

fun digits :: "nat \<Rightarrow> string" where
  "digits n =
     (if n < 10 then [''0123456789'' ! n]
      else digits (n div 10) @ [''0123456789'' ! (n mod 10)])"

declare digits.simps [simp del]

definition Sprintf_d :: "int \<Rightarrow> string" where
  "Sprintf_d i = (if i < 0 then ''-'' @ digits (nat (- i)) else digits (nat i))"

definition Sprintf_s_int64 :: "int64 \<Rightarrow> string" where
  "Sprintf_s_int64 n = ''%!s(int64='' @ Sprintf_d (sint n) @ '')''"

text \<open>
  Sequencing of calls: a panic, or a call that does not return, ends the caller too.
\<close>

definition go_bind :: "'a go \<Rightarrow> ('a \<Rightarrow> 'b go) \<Rightarrow> 'b go" where
  "go_bind m f = (case m of Returns x \<Rightarrow> f x | Panics p \<Rightarrow> Panics p | NoReturn \<Rightarrow> NoReturn)"

text \<open>
  The statement pair \<open>err = ProcessError(message, env); return\<close> of the primitives: the
  result stays nil and the error is whatever \<open>ProcessError\<close> returns.
\<close>

definition signal_error ::
  "runtime \<Rightarrow> string \<Rightarrow> SymbolTableFrame \<Rightarrow> world \<Rightarrow> string list
     \<Rightarrow> (ret \<times> world \<times> string list) go" where
  "signal_error rt message env w ls =
     go_bind (ProcessError rt message env w ls)
       (\<lambda>(err, w', ls'). Returns ((DNil, err), w', ls'))"

text \<open>
  Memory. \<open>load_elem\<close> and \<open>store_elem\<close> read and write the element at a position of a
  slice; \<open>index_slice\<close> and \<open>assign_slice\<close> are Go's \<open>values[i]\<close> and \<open>values[i] = x\<close>
  with the bounds check against the length of the slice; \<open>fresh_array\<close> is what a
  \<open>make\<close> that succeeds does, a slice of length \<open>n\<close> on a fresh backing array of \<open>c\<close> nil
  elements; \<open>make_slice\<close> is \<open>make([]*Data, n)\<close>, which panics ("makeslice: len out of
  range") for a negative length and for a length beyond the limit of the runtime;
  \<open>append_slice\<close> is \<open>append\<close> where the capacity suffices (beyond it Go moves the
  elements to a larger fresh array, of a size the language leaves open; the array is
  given the size needed).
\<close>

definition load_elem :: "world \<Rightarrow> slice \<Rightarrow> nat \<Rightarrow> data" where
  "load_elem w v i = heap w (arr v) ! (off v + i)"

definition store_elem :: "world \<Rightarrow> slice \<Rightarrow> nat \<Rightarrow> data \<Rightarrow> world" where
  "store_elem w v i x = w\<lparr>heap := (heap w)(arr v := (heap w (arr v))[off v + i := x])\<rparr>"

definition index_slice :: "world \<Rightarrow> slice \<Rightarrow> int \<Rightarrow> data go" where
  "index_slice w v i =
     (if i < 0 \<or> int (len v) \<le> i then Panics IndexOutOfRange
      else Returns (load_elem w v (nat i)))"

definition assign_slice :: "world \<Rightarrow> slice \<Rightarrow> int \<Rightarrow> data \<Rightarrow> world go" where
  "assign_slice w v i x =
     (if i < 0 \<or> int (len v) \<le> i then Panics IndexOutOfRange
      else Returns (store_elem w v (nat i) x))"

definition fresh_array :: "world \<Rightarrow> nat \<Rightarrow> nat \<Rightarrow> slice \<times> world" where
  "fresh_array w n c =
     (\<lparr>arr = brk w, off = 0, len = n, cap = c\<rparr>,
      w\<lparr>heap := (heap w)(brk w := replicate c DNil), brk := Suc (brk w)\<rparr>)"

definition make_slice :: "runtime \<Rightarrow> world \<Rightarrow> int \<Rightarrow> (slice \<times> world) go" where
  "make_slice rt w n =
     (if n < 0 \<or> int (MaxSliceLen rt) < n then Panics MakeSliceLenOutOfRange
      else Returns (fresh_array w (nat n) (nat n)))"

definition elements :: "world \<Rightarrow> slice \<Rightarrow> data list" where
  "elements w v = take (len v) (drop (off v) (heap w (arr v)))"

definition append_slice :: "slice \<times> world \<Rightarrow> data \<Rightarrow> slice \<times> world" where
  "append_slice sw x =
     (let s = fst sw; w = snd sw
      in if len s < cap s then (s\<lparr>len := Suc (len s)\<rparr>, store_elem w s (len s) x)
         else (\<lparr>arr = brk w, off = 0, len = Suc (len s), cap = Suc (len s)\<rparr>,
               w\<lparr>heap := (heap w)(brk w := elements w s @ [x]), brk := Suc (brk w)\<rparr>))"

text \<open>The loop \<open>for i, val := range originalValues { vals[i] = val }\<close>.\<close>

fun range_assign :: "world \<Rightarrow> slice \<Rightarrow> nat \<Rightarrow> data list \<Rightarrow> world go" where
  "range_assign w vals i [] = Returns w"
| "range_assign w vals i (val # rest) =
     go_bind (assign_slice w vals (int i) val) (\<lambda>w'. range_assign w' vals (Suc i) rest)"

text \<open>
  In \<open>VectorCopyImpl\<close> the call \<open>make([]*Data, 0, len(v))\<close> asks for the length of a
  vector that exists, a length that \<open>make\<close> has allocated before: it succeeds.
\<close>

definition VectorCopyImpl ::
  "runtime \<Rightarrow> data list \<Rightarrow> SymbolTableFrame \<Rightarrow> world \<Rightarrow> string list
     \<Rightarrow> (ret \<times> world \<times> string list) go" where
  "VectorCopyImpl rt args env w ls =
     (let vect = First args
      in if \<not> VectorP vect then
           signal_error rt (''vector-copy needs a vector as its argument, but got ''
                            @ String rt vect @ ''.'') env w ls
         else
           (let v = VectorValue vect;
                (newV, w') = foldl append_slice (fresh_array w 0 (len v)) (elements w v)
            in Returns ((VectorWithValue newV, None), w', ls)))"

definition VectorGrowImpl ::
  "runtime \<Rightarrow> data list \<Rightarrow> SymbolTableFrame \<Rightarrow> world \<Rightarrow> string list
     \<Rightarrow> (ret \<times> world \<times> string list) go" where
  "VectorGrowImpl rt args env w ls =
     (let v = First args
      in if \<not> VectorP v then
           signal_error rt (''vector-grow needs a vector as its first argument, but got ''
                            @ String rt v @ ''.'') env w ls
         else
           (let originalValues = VectorValue v;
                k = Second args
            in if \<not> IntegerP k then
                 signal_error rt (''vector-grow needs an integer as its second argument, but got ''
                                  @ String rt k @ ''.'') env w ls
               else
                 (let size = IntegerValue k
                  in if sint size \<le> int (len originalValues) then
                       signal_error rt
                         (''vector-grow needs a new size that is larger than the size of its vector argument (''
                          @ Sprintf_d (int (len originalValues)) @ ''), but got ''
                          @ Sprintf_s_int64 size @ ''.'') env w ls
                     else
                       go_bind (make_slice rt w (sint size))
                         (\<lambda>(vals, w1).
                            go_bind (range_assign w1 vals 0 (elements w1 originalValues))
                              (\<lambda>w2. Returns ((VectorWithValue vals, None), w2, ls))))))"

definition VectorRefImpl ::
  "runtime \<Rightarrow> data list \<Rightarrow> SymbolTableFrame \<Rightarrow> world \<Rightarrow> string list
     \<Rightarrow> (ret \<times> world \<times> string list) go" where
  "VectorRefImpl rt args env w ls =
     (let v = First args
      in if \<not> VectorP v then
           signal_error rt (''vector-ref needs a vector as its first argument, but got ''
                            @ String rt v @ ''.'') env w ls
         else
           (let values = VectorValue v;
                k = Second args
            in if \<not> IntegerP k then
                 signal_error rt (''vector-ref needs an integer as its second argument, but got ''
                                  @ String rt k @ ''.'') env w ls
               else
                 (let index = sint (IntegerValue k)
                  in if int (len values) \<le> index then
                       signal_error rt
                         (''vector-ref needs an index less than the vector length, but got ''
                          @ Sprintf_d index @ ''.'') env w ls
                     else go_bind (index_slice w values index)
                            (\<lambda>result. Returns ((result, None), w, ls)))))"

definition VectorSetImpl ::
  "runtime \<Rightarrow> data list \<Rightarrow> SymbolTableFrame \<Rightarrow> world \<Rightarrow> string list
     \<Rightarrow> (ret \<times> world \<times> string list) go" where
  "VectorSetImpl rt args env w ls =
     (let v = First args
      in if \<not> VectorP v then
           signal_error rt (''vector-set! needs a vector as its first argument, but got ''
                            @ String rt v @ ''.'') env w ls
         else
           (let k = Second args
            in if \<not> IntegerP k then
                 signal_error rt (''vector-set! needs an integer as its second argument, but got ''
                                  @ String rt k @ ''.'') env w ls
               else
                 (let values = VectorValue v;
                      kval = sint (IntegerValue k);
                      newValue = Third args
                  in go_bind (assign_slice w values kval newValue)
                       (\<lambda>w'. Returns ((StringWithValue ''OK'', None), w', ls)))))"

definition VectorBinarySearchImpl ::
  "runtime \<Rightarrow> data list \<Rightarrow> SymbolTableFrame \<Rightarrow> world \<Rightarrow> string list
     \<Rightarrow> (ret \<times> world \<times> string list) go" where
  "VectorBinarySearchImpl rt args env w ls = Returns ((DNil, None), w, ls)"

text \<open>Go's slice expression \<open>values[low:high]\<close>, for bounds within the capacity.\<close>

definition reslice :: "slice \<Rightarrow> nat \<Rightarrow> nat \<Rightarrow> slice" where
  "reslice s low high = \<lparr>arr = arr s, off = off s + low, len = high - low, cap = cap s - low\<rparr>"

definition SubVectorImpl ::
  "runtime \<Rightarrow> data list \<Rightarrow> SymbolTableFrame \<Rightarrow> world \<Rightarrow> string list
     \<Rightarrow> (ret \<times> world \<times> string list) go" where
  "SubVectorImpl rt args env w ls =
     (let v = First args
      in if \<not> VectorP v then
           signal_error rt (''subvector needs a vector as its argument, but got ''
                            @ String rt v @ ''.'') env w ls
         else
           (let values = VectorValue v;
                start = Second args
            in if \<not> IntegerP start then
                 signal_error rt (''subvector needs an integer as its starting index, but got ''
                                  @ String rt start @ ''.'') env w ls
               else
                 (let startIndex = sint (IntegerValue start)
                  in if startIndex < 0 \<or> int (len values) \<le> startIndex then
                       signal_error rt
                         (''subvector starting index is out of bounds (0-''
                          @ Sprintf_d (int (len values) - 1) @ ''), got ''
                          @ Sprintf_d startIndex @ ''.'') env w ls
                     else
                       (let end = Third args
                        in if \<not> IntegerP end then
                             signal_error rt
                               (''subvector needs an integer as its ending index, but got ''
                                @ String rt end @ ''.'') env w ls
                           else
                             (let endIndex = sint (IntegerValue end)
                              in if endIndex < startIndex \<or> int (len values) < endIndex then
                                   signal_error rt
                                     (''subvector ending index is out of bounds (''
                                      @ Sprintf_d startIndex @ ''-'' @ Sprintf_d (int (len values))
                                      @ ''), got '' @ Sprintf_d startIndex @ ''.'') env w ls
                                 else Returns
                                   ((VectorWithValue (reslice values (nat startIndex) (nat endIndex)),
                                     None), w, ls))))))"

definition VectorHeadImpl ::
  "runtime \<Rightarrow> data list \<Rightarrow> SymbolTableFrame \<Rightarrow> world \<Rightarrow> string list
     \<Rightarrow> (ret \<times> world \<times> string list) go" where
  "VectorHeadImpl rt args env w ls =
     (let v = First args
      in if \<not> VectorP v then
           signal_error rt (''vector-head needs a vector as its argument, but got ''
                            @ String rt v @ ''.'') env w ls
         else
           (let values = VectorValue v;
                end = Second args
            in if \<not> IntegerP end then
                 signal_error rt (''vector-head needs an integer as its ending index, but got ''
                                  @ String rt end @ ''.'') env w ls
               else
                 (let endIndex = sint (IntegerValue end)
                  in if endIndex < 0 \<or> int (len values) < endIndex then
                       signal_error rt
                         (''vector-head ending index is out of bounds (0-''
                          @ Sprintf_d (int (len values)) @ ''), got ''
                          @ Sprintf_d endIndex @ ''.'') env w ls
                     else Returns
                       ((VectorWithValue (reslice values 0 (nat endIndex)), None), w, ls))))"

definition VectorTailImpl ::
  "runtime \<Rightarrow> data list \<Rightarrow> SymbolTableFrame \<Rightarrow> world \<Rightarrow> string list
     \<Rightarrow> (ret \<times> world \<times> string list) go" where
  "VectorTailImpl rt args env w ls =
     (let v = First args
      in if \<not> VectorP v then
           signal_error rt (''vector-tail needs a vector as its argument, but got ''
                            @ String rt v @ ''.'') env w ls
         else
           (let values = VectorValue v;
                start = Second args
            in if \<not> IntegerP start then
                 signal_error rt (''vector-tail needs an integer as its starting index, but got ''
                                  @ String rt start @ ''.'') env w ls
               else
                 (let startIndex = sint (IntegerValue start)
                  in if startIndex < 0 \<or> int (len values) < startIndex then
                       signal_error rt
                         (''vector-tail starting index is out of bounds (0-''
                          @ Sprintf_d (int (len values)) @ ''), got ''
                          @ Sprintf_d startIndex @ ''.'') env w ls
                     else Returns
                       ((VectorWithValue (reslice values (nat startIndex) (len values)), None),
                        w, ls))))"

text \<open>
  The table that \<open>RegisterVectorPrimitives\<close> registers, in its order: the name of the
  primitive, its arity specification and the name of the Go function bound to it.
\<close>

definition RegisterVectorPrimitives :: "(string \<times> string \<times> string) list" where
  "RegisterVectorPrimitives =
     [(''make-vector'', ''1|2'', ''MakeVectorImpl''),
      (''vector'', ''>=1'', ''VectorImpl''),
      (''vector-copy'', ''1'', ''VectorCopyImpl''),
      (''list->vector'', ''1'', ''ListToVectorImpl''),
      (''vector->list'', ''1'', ''VectorToListImpl''),
      (''make-initialized-vector'', ''2'', ''MakeInitializedVectorImpl''),
      (''vector-grow'', ''2'', ''VectorGrowImpl''),
      (''vector-map'', ''>=2'', ''VectorMapImpl''),
      (''vector-for-each'', ''>=2'', ''VectorForEachImpl''),
      (''vector-reduce'', ''3'', ''VectorReduceImpl''),
      (''vector-filter'', ''2'', ''VectorFilterImpl''),
      (''vector-remove'', ''2'', ''VectorRemoveImpl''),
      (''vector?'', ''1'', ''VectorPImpl''),
      (''vector-length'', ''1'', ''VectorLengthImpl''),
      (''vector-ref'', ''2'', ''VectorRefImpl''),
      (''vector-set!'', ''3'', ''VectorSetImpl''),
      (''vector-first'', ''1'', ''VectorFirstImpl''),
      (''vector-second'', ''1'', ''VectorSecondImpl''),
      (''vector-third'', ''1'', ''VectorThirdImpl''),
      (''vector-fourth'', ''1'', ''VectorFourthImpl''),
      (''vector-fifth'', ''1'', ''VectorFifthImpl''),
      (''vector-sixth'', ''1'', ''VectorSixthImpl''),
      (''vector-seventh'', ''1'', ''VectorSeventhImpl''),
      (''vector-eighth'', ''1'', ''VectorEighthImpl''),
      (''vector-ninth'', ''1'', ''VectorNinthImpl''),
      (''vector-tenth'', ''1'', ''VectorTenthImpl''),
      (''vector-binary-search'', ''4'', ''VectorBinarySearchImpl''),
      (''vector-find'', ''2'', ''VectorFindImpl''),
      (''subvector'', ''3'', ''SubVectorImpl''),
      (''vector-head'', ''2'', ''VectorHeadImpl''),
      (''vector-tail'', ''2'', ''VectorTailImpl''),
      (''vector-fill!'', ''2'', ''VectorFillImpl''),
      (''subvector-fill!'', ''4'', ''SubVectorFillImpl''),
      (''subvector-move-left!'', ''5'', ''SubVectorMoveLeftImpl''),
      (''subvector-move-right!'', ''5'', ''SubVectorMoveRightImpl''),
      (''vector-sort'', ''2'', ''VectorSortImpl''),
      (''vector-sort!'', ''2'', ''VectorSortInPlaceImpl'')]"

text \<open>
  A slice is well formed in a world when its backing array has been allocated and holds
  the whole capacity of the slice.
\<close>

definition valid_slice :: "world \<Rightarrow> slice \<Rightarrow> bool" where
  "valid_slice w v =
     (arr v < brk w \<and> len v \<le> cap v \<and> off v + cap v \<le> length (heap w (arr v)))"

text \<open>
  The world after the elements \<open>xs\<close> have been stored at the consecutive positions of a
  slice from position \<open>i\<close> on, which is what the copying loops of the primitives do.
\<close>

definition store_elems :: "world \<Rightarrow> slice \<Rightarrow> nat \<Rightarrow> data list \<Rightarrow> world" where
  "store_elems w v i xs =
     w\<lparr>heap := (heap w)(arr v :=
          take (off v + i) (heap w (arr v)) @ xs
          @ drop (off v + i + length xs) (heap w (arr v)))\<rparr>"

section \<open>A concrete runtime and world\<close>

text \<open>
  A reader that knows the numeral 42, an evaluator under which every expression is its
  own value, the limit of \<open>make\<close> for pointers on a 64-bit Linux, and a world with the
  debugger switched off and one backing array, at address 0, holding the integers 10, 20
  and 30.
\<close>

definition example_runtime :: runtime where
  "example_runtime =
     \<lparr>Parse = (\<lambda>s. if s = ''42'' then Returns (DInteger 42, None)
                   else Returns (DNil, Some ''unreadable'')),
      Eval = (\<lambda>code env w. Evaluated (code, None) w),
      String = (\<lambda>d. ''#<value>''),
      MaxSliceLen = 2 ^ 45\<rparr>"

definition example_world :: world where
  "example_world =
     \<lparr>DebugTrace = False, DebugOnError = False, IsInteractive = False,
      DebugEvalInDebugRepl = False, DebugSingleStep = False, DebugCurrentFrame = None,
      DebugReturnValue = DNil,
      heap = (\<lambda>a. if a = 0 then [DInteger 10, DInteger 20, DInteger 30] else []),
      brk = 1\<rparr>"

definition example_vector :: slice where
  "example_vector = \<lparr>arr = 0, off = 0, len = 3, cap = 3\<rparr>"

text \<open>
  The script that writes \<open>x\<close> at index \<open>i\<close> of the vector \<open>a\<close> with \<open>vector-set!\<close> and then
  reads index \<open>i'\<close> of the vector \<open>b\<close> with \<open>vector-ref\<close>; an error of the first call ends
  the script.
\<close>

definition set_then_ref ::
  "runtime \<Rightarrow> data \<Rightarrow> data \<Rightarrow> data \<Rightarrow> data \<Rightarrow> data \<Rightarrow> SymbolTableFrame \<Rightarrow> world \<Rightarrow> string list
     \<Rightarrow> (ret \<times> world \<times> string list) go" where
  "set_then_ref rt a i x b i' env w ls =
     go_bind (VectorSetImpl rt [a, i, x] env w ls)
       (\<lambda>(r, w', ls'). if snd r \<noteq> None then Returns ((DNil, snd r), w', ls')
                        else VectorRefImpl rt [b, i'] env w' ls')"

section \<open>The override result in the evaluator\<close>

text \<open>
  Modelled from the spec: the evaluator, whose Go source is not among the sources. Of it,
  what sections 4.5 and 7 say of the override result, for the outcome of the call of a
  primitive: once the command loop has returned, the evaluator consults the state that
  the command set; an override value installed by the return command becomes the
  successful result of the evaluation that failed, and is pending no longer; without
  one the result of the call stands; an error propagates.
\<close>

definition consult_override ::
  "(ret \<times> world \<times> string list) go \<Rightarrow> (ret \<times> world \<times> string list) go" where
  "consult_override call =
     go_bind call
       (\<lambda>(r, w, ls).
          if snd r \<noteq> None then Returns ((DNil, snd r), w, ls)
          else if DebugReturnValue w \<noteq> DNil then
            Returns ((DebugReturnValue w, None), w\<lparr>DebugReturnValue := DNil\<rparr>, ls)
          else Returns ((fst r, None), w, ls))"

section \<open>Properties of the arithmetic primitives\<close>

lemma Add_loop_non_numeric:
  "\<exists>x \<in> set c. TypeOf x \<noteq> NumberType \<Longrightarrow> Add_loop c acc = (DNil, Some ''Number expected'')"
  by (induction c arbitrary: acc) auto

lemma Subtract_loop_non_numeric:
  "\<exists>x \<in> set c. TypeOf x \<noteq> NumberType \<Longrightarrow>
     Subtract_loop c acc = (DNil, Some ''Number expected'')"
  by (induction c arbitrary: acc) auto

lemma Multiply_loop_non_numeric:
  "\<exists>x \<in> set c. TypeOf x \<noteq> NumberType \<Longrightarrow>
     Multiply_loop c acc = (DNil, Some ''Number expected'')"
  by (induction c arbitrary: acc) auto

lemma Subtract_non_numeric:
  assumes "\<exists>x \<in> set args. TypeOf x \<noteq> NumberType"
  shows "Subtract args = Returns (DNil, Some ''Number expected'')"
proof (cases args)
  case Nil
  with assms show ?thesis by simp
next
  case (Cons a rest)
  show ?thesis
  proof (cases "TypeOf a \<noteq> NumberType")
    case True
    with Cons show ?thesis by (simp add: Subtract_def)
  next
    case False
    with assms Cons have bad: "\<exists>x \<in> set rest. TypeOf x \<noteq> NumberType" by auto
    then have "rest \<noteq> []" by auto
    with Cons False bad show ?thesis
      by (simp add: Subtract_def Length_def Subtract_loop_non_numeric)
  qed
qed

lemma Add_loop_numbers:
  "Add_loop (map NumberWithValue xs) acc = (NumberWithValue (foldl (+) acc xs), None)"
  by (induction xs arbitrary: acc) (simp_all add: NumberWithValue_def)

lemma Multiply_loop_numbers:
  "Multiply_loop (map NumberWithValue xs) acc = (NumberWithValue (foldl (*) acc xs), None)"
  by (induction xs arbitrary: acc) (simp_all add: NumberWithValue_def)

lemma Subtract_loop_numbers:
  "Subtract_loop (map NumberWithValue xs) acc = (NumberWithValue (foldl (-) acc xs), None)"
  by (induction xs arbitrary: acc) (simp_all add: NumberWithValue_def)

lemma Quotient_loop_numbers:
  "0 \<notin> set xs \<Longrightarrow>
     Quotient_loop (map NumberWithValue xs) acc = Returns (NumberWithValue (foldl quo acc xs), None)"
  by (induction xs arbitrary: acc) (simp_all add: NumberWithValue_def go_quo_def)

lemma foldl_add_sum_list: "foldl (+) acc xs = acc + sum_list (xs :: int64 list)"
  by (induction xs arbitrary: acc) (simp_all add: add.assoc)

lemma foldl_mult_prod_list: "foldl (*) acc xs = acc * prod_list (xs :: int64 list)"
  by (induction xs arbitrary: acc) (simp_all add: mult.assoc)

text \<open>
  C5. An argument list with a non-numeric operand at any position makes each of \<open>Add\<close>,
  \<open>Subtract\<close> and \<open>Multiply\<close> return the error "Number expected" with no result.
\<close>

theorem arithmetic_non_numeric_operand:
  assumes "\<exists>x \<in> set args. TypeOf x \<noteq> NumberType"
  shows "Add args = Returns (DNil, Some ''Number expected'')
       \<and> Subtract args = Returns (DNil, Some ''Number expected'')
       \<and> Multiply args = Returns (DNil, Some ''Number expected'')"
  using assms
  by (simp add: Add_def Multiply_def Add_loop_non_numeric Multiply_loop_non_numeric
        Subtract_non_numeric)

theorem arithmetic_non_numeric_operand_witness:
  "(\<exists>x \<in> set [NumberWithValue 1, DString ''a'', NumberWithValue 2]. TypeOf x \<noteq> NumberType)
   \<and> Add [NumberWithValue 1, DString ''a'', NumberWithValue 2]
       = Returns (DNil, Some ''Number expected'')
   \<and> Subtract [NumberWithValue 1, DString ''a'', NumberWithValue 2]
       = Returns (DNil, Some ''Number expected'')
   \<and> Multiply [NumberWithValue 1, DString ''a'', NumberWithValue 2]
       = Returns (DNil, Some ''Number expected'')"
proof -
  have h: "\<exists>x \<in> set [NumberWithValue 1, DString ''a'', NumberWithValue 2]. TypeOf x \<noteq> NumberType"
    by simp
  show ?thesis
    using h arithmetic_non_numeric_operand [OF h] by simp
qed

text \<open>
  C6. \<open>Subtract\<close> of one numeric operand returns its negation; over two or more numeric
  operands it folds subtraction from the left; \<open>Quotient\<close> over numeric operands folds
  Go's integer division from the left (as long as no divisor is zero, where Go's division
  has no value). So subtract(5) = -5, subtract(10,1,2) = 7 and divide(100,5,2) = 10.
\<close>

theorem Subtract_Quotient_left_fold:
  "Subtract [NumberWithValue a] = Returns (NumberWithValue (- a), None)
   \<and> (bs \<noteq> [] \<longrightarrow>
        Subtract (NumberWithValue a # map NumberWithValue bs)
          = Returns (NumberWithValue (foldl (-) a bs), None))
   \<and> (0 \<notin> set ds \<longrightarrow>
        Quotient (NumberWithValue a # map NumberWithValue ds)
          = Returns (NumberWithValue (foldl quo a ds), None))"
  by (simp add: Subtract_def Quotient_def Length_def Subtract_loop_numbers
        Quotient_loop_numbers)
     (simp add: NumberWithValue_def)

theorem Subtract_Quotient_left_fold_witness:
  "Subtract [NumberWithValue 5] = Returns (NumberWithValue (- 5), None)
   \<and> [1, 2] \<noteq> ([] :: int64 list)
   \<and> Subtract [NumberWithValue 10, NumberWithValue 1, NumberWithValue 2]
        = Returns (NumberWithValue 7, None)
   \<and> 0 \<notin> set [5, 2 :: int64]
   \<and> Quotient [NumberWithValue 100, NumberWithValue 5, NumberWithValue 2]
        = Returns (NumberWithValue 10, None)"
  using Subtract_Quotient_left_fold [of 5 "[1, 2]" "[5, 2]"]
        Subtract_Quotient_left_fold [of 10 "[1, 2]" "[5, 2]"]
        Subtract_Quotient_left_fold [of 100 "[1, 2]" "[5, 2]"]
  by (simp add: quo_def signed_divide_int_def)

text \<open>
  C7. \<open>Add\<close> of no arguments is 0 and \<open>Multiply\<close> of no arguments is 1; over numeric
  operands both fold their operation from the left, starting from that identity, so the
  result is the sum, respectively the product, of the operands (in Go's \<open>int\<close>).
\<close>

theorem Add_Multiply_fold:
  "Add [] = Returns (NumberWithValue 0, None)
   \<and> Multiply [] = Returns (NumberWithValue 1, None)
   \<and> Add (map NumberWithValue xs) = Returns (NumberWithValue (foldl (+) 0 xs), None)
   \<and> foldl (+) 0 xs = sum_list xs
   \<and> Multiply (map NumberWithValue xs) = Returns (NumberWithValue (foldl (*) 1 xs), None)
   \<and> foldl (*) 1 xs = prod_list xs"
  by (simp add: Add_def Multiply_def Add_loop_numbers Multiply_loop_numbers
        foldl_add_sum_list foldl_mult_prod_list)

theorem Add_Multiply_fold_witness:
  "Add [NumberWithValue 2, NumberWithValue 3, NumberWithValue 4]
     = Returns (NumberWithValue 9, None)
   \<and> Multiply [NumberWithValue 2, NumberWithValue 3, NumberWithValue 4]
     = Returns (NumberWithValue 24, None)"
  using Add_Multiply_fold [of "[2, 3, 4]"] by simp

lemma Quotient_loop_zero_divisor:
  "0 \<in> set ds \<Longrightarrow> Quotient_loop (map NumberWithValue ds) acc = Panics DivideByZero"
  by (induction ds arbitrary: acc) (auto simp: NumberWithValue_def go_quo_def)

lemma Quotient_panics_iff_zero_divisor:
  "Quotient (NumberWithValue a # map NumberWithValue ds) = Panics DivideByZero \<longleftrightarrow> 0 \<in> set ds"
proof (cases "0 \<in> set ds")
  case True
  then show ?thesis
    by (simp add: Quotient_def Quotient_loop_zero_divisor) (simp add: NumberWithValue_def)
next
  case False
  then have "Quotient_loop (map NumberWithValue ds) a
               = Returns (NumberWithValue (foldl quo a ds), None)"
    by (rule Quotient_loop_numbers)
  with False show ?thesis
    by (simp add: Quotient_def) (simp add: NumberWithValue_def)
qed

lemma Add_Subtract_Multiply_return:
  "(\<exists>r. Add args = Returns r) \<and> (\<exists>r. Subtract args = Returns r)
   \<and> (\<exists>r. Multiply args = Returns r)"
  by (simp add: Add_def Subtract_def Multiply_def)

text \<open>
  C2. \<open>Quotient\<close> has no guard for a zero divisor: on the operands 10 and 0 the division
  \<open>acc /= 0\<close> raises Go's run-time panic instead of returning an error value.
\<close>

theorem Quotient_zero_divisor_panics:
  "Quotient [NumberWithValue 10, NumberWithValue 0] = Panics DivideByZero"
  by (simp add: Quotient_def NumberWithValue_def go_quo_def)

section \<open>Properties of the conditional\<close>

text \<open>
  C3. With a truthy condition \<open>If\<close> evaluates the condition and then the then-branch,
  and nothing else; with a false condition, the condition and then the else-branch, and
  nothing else; with a third trailing clause after the two branches it returns the error
  "Too many arguments to IF" and no result, neither branch being evaluated.
\<close>

theorem If_form_one_branch:
  "(BooleanValue (fst (Eval1 c s)) \<longrightarrow>
      If_form (logged Eval1) BooleanValue [c, t, e] (s, log)
        = ((fst (Eval1 t (snd (Eval1 c s))), None),
           (snd (Eval1 t (snd (Eval1 c s))), log @ [c, t])))
   \<and> (\<not> BooleanValue (fst (Eval1 c s)) \<longrightarrow>
      If_form (logged Eval1) BooleanValue [c, t, e] (s, log)
        = ((fst (Eval1 e (snd (Eval1 c s))), None),
           (snd (Eval1 e (snd (Eval1 c s))), log @ [c, e])))
   \<and> If_form (logged Eval1) BooleanValue (c # t # e # x # xs) (s, log)
        = ((DNil, Some ''Too many arguments to IF''), (snd (Eval1 c s), log @ [c]))"
  by (simp add: If_form_def logged_def Cadr_def Caddr_def Cdddr_def)

theorem If_form_one_branch_witness:
  "(\<lambda>d. d \<noteq> DBoolean False) (fst ((\<lambda>x n. (x, Suc n)) (DBoolean True) (0 :: nat)))
   \<and> If_form (logged (\<lambda>x n. (x, Suc n))) (\<lambda>d. d \<noteq> DBoolean False)
        [DBoolean True, DInteger 1, DInteger 2] (0 :: nat, [])
      = ((DInteger 1, None), (2, [DBoolean True, DInteger 1]))
   \<and> \<not> (\<lambda>d. d \<noteq> DBoolean False) (fst ((\<lambda>x n. (x, Suc n)) (DBoolean False) (0 :: nat)))
   \<and> If_form (logged (\<lambda>x n. (x, Suc n))) (\<lambda>d. d \<noteq> DBoolean False)
        [DBoolean False, DInteger 1, DInteger 2] (0 :: nat, [])
      = ((DInteger 2, None), (2, [DBoolean False, DInteger 2]))
   \<and> If_form (logged (\<lambda>x n. (x, Suc n))) (\<lambda>d. d \<noteq> DBoolean False)
        [DBoolean True, DInteger 1, DInteger 2, DInteger 3] (0 :: nat, [])
      = ((DNil, Some ''Too many arguments to IF''), (1, [DBoolean True]))"
  using If_form_one_branch [of "\<lambda>d. d \<noteq> DBoolean False" "\<lambda>x n. (x, Suc n)"
          "DBoolean True" "0 :: nat" "DInteger 1" "DInteger 2" "[]" "DInteger 3" "[]"]
        If_form_one_branch [of "\<lambda>d. d \<noteq> DBoolean False" "\<lambda>x n. (x, Suc n)"
          "DBoolean False" "0 :: nat" "DInteger 1" "DInteger 2" "[]" "DInteger 3" "[]"]
  by simp

section \<open>Properties of the debugger\<close>

lemma Split_not_empty: "Split s sep \<noteq> []"
  by (induction s) (auto split: list.splits)

lemma Join_Cons_Cons: "Join ((c # t) # ts) sep = c # Join (t # ts) sep"
  by (cases ts) simp_all

lemma Join_Split: "Join (Split s sep) sep = s"
proof (induction s)
  case Nil
  show ?case by simp
next
  case (Cons c cs)
  obtain t ts where ts: "Split cs sep = t # ts"
    using Split_not_empty [of cs sep] by (cases "Split cs sep") auto
  with Cons show ?case by (simp add: Join_Cons_Cons)
qed

lemma Split_return_command:
  "Split (''r '' @ expr) (CHR '' '') = ''r'' # Split expr (CHR '' '')"
proof -
  obtain t ts where ts: "Split expr (CHR '' '') = t # ts"
    using Split_not_empty [of expr "CHR '' ''"] by (cases "Split expr (CHR '' '')") auto
  then show ?thesis by simp
qed

lemma DebugRepl_body_return_command:
  assumes "Parse rt expr = Returns (code, perr)"
    and "Eval rt code env (w\<lparr>DebugEvalInDebugRepl := True\<rparr>) = Evaluated (d, None) w2"
  shows "DebugRepl_body rt env ('':r '' @ expr) w
           = Return (w2\<lparr>DebugEvalInDebugRepl := False, DebugReturnValue := d,
                        DebugCurrentFrame := None, DebugSingleStep := False\<rparr>)"
proof -
  have pre: "HasPrefix ('':r '' @ expr) DebugCommandPrefix"
    by (simp add: HasPrefix_def DebugCommandPrefix_def)
  have cmd: "TrimPrefix ('':r '' @ expr) DebugCommandPrefix = ''r '' @ expr"
    by (simp add: TrimPrefix_def HasPrefix_def DebugCommandPrefix_def)
  have tok: "Split (''r '' @ expr) (CHR '' '') = ''r'' # Split expr (CHR '' '')"
    by (rule Split_return_command)
  have "DebugRepl_body rt env ('':r '' @ expr) w
          = Return (w2\<lparr>DebugEvalInDebugRepl := False, DebugReturnValue := d,
                       DebugCurrentFrame := None, DebugSingleStep := False,
                       DebugEvalInDebugRepl := False\<rparr>)"
    using pre cmd tok
    by (simp add: DebugRepl_body_def Join_Split assms)
  then show ?thesis by simp
qed

lemma DebugRepl_run_lines:
  "run_lines rt env pre w = Some w1 \<Longrightarrow> DebugRepl rt env (pre @ rest) w = DebugRepl rt env rest w1"
  by (induction pre arbitrary: w) (auto split: action.splits)

lemma DebugRepl_return_command:
  assumes "run_lines rt env pre w = Some w1"
    and "Parse rt expr = Returns (code, perr)"
    and "Eval rt code env (w1\<lparr>DebugEvalInDebugRepl := True\<rparr>) = Evaluated (d, None) w2"
  shows "DebugRepl rt env (pre @ ('':r '' @ expr) # rest) w
           = Returns (w2\<lparr>DebugEvalInDebugRepl := False, DebugReturnValue := d,
                         DebugCurrentFrame := None, DebugSingleStep := False\<rparr>, rest)"
proof -
  have "DebugRepl rt env (pre @ ('':r '' @ expr) # rest) w
          = DebugRepl rt env (('':r '' @ expr) # rest) w1"
    using assms(1) by (rule DebugRepl_run_lines)
  moreover have "DebugRepl_body rt env ('':r '' @ expr) w1
                   = Return (w2\<lparr>DebugEvalInDebugRepl := False, DebugReturnValue := d,
                                DebugCurrentFrame := None, DebugSingleStep := False\<rparr>)"
    using assms(2,3) by (rule DebugRepl_body_return_command)
  ultimately show ?thesis by simp
qed

lemma consult_override_returned:
  "consult_override
     (Returns ((DNil, None),
               w\<lparr>DebugEvalInDebugRepl := False, DebugReturnValue := d,
                  DebugCurrentFrame := None, DebugSingleStep := False\<rparr>, ls))
   = Returns ((d, None),
              w\<lparr>DebugEvalInDebugRepl := False, DebugReturnValue := DNil,
                 DebugCurrentFrame := None, DebugSingleStep := False\<rparr>, ls)"
  by (cases "d = DNil") (simp_all add: consult_override_def go_bind_def)

text \<open>
  A panic of the evaluator at the prompt is recovered: \<open>DebugRepl\<close> returns, the flag
  \<open>DebugEvalInDebugRepl\<close> being as the panic left it and no override result stored.
\<close>

lemma DebugRepl_recovers_panic:
  assumes "Parse rt expr = Returns (code, perr)"
    and "Eval rt code env (w\<lparr>DebugEvalInDebugRepl := True\<rparr>) = EvalPanics wp"
  shows "DebugRepl rt env (('':r '' @ expr) # rest) w = Returns (wp, rest)"
proof -
  have pre: "HasPrefix ('':r '' @ expr) DebugCommandPrefix"
    by (simp add: HasPrefix_def DebugCommandPrefix_def)
  have cmd: "TrimPrefix ('':r '' @ expr) DebugCommandPrefix = ''r '' @ expr"
    by (simp add: TrimPrefix_def HasPrefix_def DebugCommandPrefix_def)
  have tok: "Split (''r '' @ expr) (CHR '' '') = ''r'' # Split expr (CHR '' '')"
    by (rule Split_return_command)
  have "DebugRepl_body rt env ('':r '' @ expr) w = Recover wp"
    using pre cmd tok
    by (simp add: DebugRepl_body_def Join_Split assms)
  then show ?thesis by simp
qed

lemma DebugRepl_never_panics: "DebugRepl rt env ls w \<noteq> Panics f"
  by (induction ls arbitrary: w) (auto split: action.splits)

text \<open>
  C4. \<open>ProcessError\<close> returns an error exactly when it is not the case that
  break-on-error is enabled, execution is interactive and the failure does not come from
  code entered at the debugger's prompt; it is then the error of the message given, the
  world being untouched. Otherwise the failure goes to the command loop \<open>DebugRepl\<close>, and
  the error returned, if the loop returns, is nil. In that loop, after any lines that
  leave it running, the command \<open>:r\<close> with an expression that evaluates to a value
  without error stores that value in \<open>DebugReturnValue\<close>, the override result, and ends
  the loop; \<open>ProcessError\<close> returns the nil error, the primitive that raised the failure
  returns without error, and the evaluation that failed completes with that value as its
  successful result.
\<close>

theorem ProcessError_policy:
  "((\<exists>e w' ls'. ProcessError rt msg env w ls = Returns (Some e, w', ls'))
      \<longleftrightarrow> \<not> (DebugOnError w \<and> IsInteractive w \<and> \<not> DebugEvalInDebugRepl w))
   \<and> (\<not> (DebugOnError w \<and> IsInteractive w \<and> \<not> DebugEvalInDebugRepl w) \<longrightarrow>
        ProcessError rt msg env w ls = Returns (Some msg, w, ls))
   \<and> (DebugOnError w \<and> IsInteractive w \<and> \<not> DebugEvalInDebugRepl w \<longrightarrow>
        ProcessError rt msg env w ls
          = go_bind (DebugRepl rt env ls w) (\<lambda>(w', ls'). Returns (None, w', ls')))
   \<and> (DebugOnError w \<and> IsInteractive w \<and> \<not> DebugEvalInDebugRepl w
        \<and> run_lines rt env pre w = Some w1
        \<and> Parse rt expr = Returns (code, perr)
        \<and> Eval rt code env (w1\<lparr>DebugEvalInDebugRepl := True\<rparr>) = Evaluated (d, None) w2 \<longrightarrow>
        ProcessError rt msg env w (pre @ ('':r '' @ expr) # rest)
          = Returns (None,
                     w2\<lparr>DebugEvalInDebugRepl := False, DebugReturnValue := d,
                        DebugCurrentFrame := None, DebugSingleStep := False\<rparr>,
                     rest)
        \<and> signal_error rt msg env w (pre @ ('':r '' @ expr) # rest)
          = Returns ((DNil, None),
                     w2\<lparr>DebugEvalInDebugRepl := False, DebugReturnValue := d,
                        DebugCurrentFrame := None, DebugSingleStep := False\<rparr>,
                     rest)
        \<and> consult_override (signal_error rt msg env w (pre @ ('':r '' @ expr) # rest))
          = Returns ((d, None),
                     w2\<lparr>DebugEvalInDebugRepl := False, DebugReturnValue := DNil,
                        DebugCurrentFrame := None, DebugSingleStep := False\<rparr>,
                     rest))"
proof (intro conjI impI)
  show "(\<exists>e w' ls'. ProcessError rt msg env w ls = Returns (Some e, w', ls'))
          \<longleftrightarrow> \<not> (DebugOnError w \<and> IsInteractive w \<and> \<not> DebugEvalInDebugRepl w)"
    by (auto simp: ProcessError_def split: go.splits)
next
  assume "\<not> (DebugOnError w \<and> IsInteractive w \<and> \<not> DebugEvalInDebugRepl w)"
  then show "ProcessError rt msg env w ls = Returns (Some msg, w, ls)"
    by (auto simp: ProcessError_def)
next
  assume "DebugOnError w \<and> IsInteractive w \<and> \<not> DebugEvalInDebugRepl w"
  then show "ProcessError rt msg env w ls
               = go_bind (DebugRepl rt env ls w) (\<lambda>(w', ls'). Returns (None, w', ls'))"
    by (simp add: ProcessError_def go_bind_def)
next
  assume a: "DebugOnError w \<and> IsInteractive w \<and> \<not> DebugEvalInDebugRepl w
               \<and> run_lines rt env pre w = Some w1
               \<and> Parse rt expr = Returns (code, perr)
               \<and> Eval rt code env (w1\<lparr>DebugEvalInDebugRepl := True\<rparr>) = Evaluated (d, None) w2"
  then have r: "run_lines rt env pre w = Some w1"
    and p: "Parse rt expr = Returns (code, perr)"
    and e: "Eval rt code env (w1\<lparr>DebugEvalInDebugRepl := True\<rparr>) = Evaluated (d, None) w2"
    by blast+
  have loop: "DebugRepl rt env (pre @ ('':r '' @ expr) # rest) w
                = Returns (w2\<lparr>DebugEvalInDebugRepl := False, DebugReturnValue := d,
                              DebugCurrentFrame := None, DebugSingleStep := False\<rparr>, rest)"
    using r p e by (rule DebugRepl_return_command)
  with a show err: "ProcessError rt msg env w (pre @ ('':r '' @ expr) # rest)
                 = Returns (None,
                            w2\<lparr>DebugEvalInDebugRepl := False, DebugReturnValue := d,
                               DebugCurrentFrame := None, DebugSingleStep := False\<rparr>,
                            rest)"
    by (simp add: ProcessError_def)
  then show sig: "signal_error rt msg env w (pre @ ('':r '' @ expr) # rest)
                 = Returns ((DNil, None),
                            w2\<lparr>DebugEvalInDebugRepl := False, DebugReturnValue := d,
                               DebugCurrentFrame := None, DebugSingleStep := False\<rparr>,
                            rest)"
    by (simp add: signal_error_def go_bind_def)
  show "consult_override (signal_error rt msg env w (pre @ ('':r '' @ expr) # rest))
          = Returns ((d, None),
                     w2\<lparr>DebugEvalInDebugRepl := False, DebugReturnValue := DNil,
                        DebugCurrentFrame := None, DebugSingleStep := False\<rparr>,
                     rest)"
    unfolding sig by (rule consult_override_returned)
qed

lemma VectorRefImpl_index_too_large:
  "int (len v) \<le> sint k \<Longrightarrow>
     VectorRefImpl rt [DVector v, DInteger k] env w ls
       = signal_error rt
           (''vector-ref needs an index less than the vector length, but got ''
            @ Sprintf_d (sint k) @ ''.'') env w ls"
  by (simp add: VectorRefImpl_def First_def Second_def VectorP_def IntegerP_def
        IntegerValue_def)

theorem ProcessError_policy_witness:
  "DebugOnError (example_world\<lparr>DebugOnError := True, IsInteractive := True\<rparr>)
   \<and> IsInteractive (example_world\<lparr>DebugOnError := True, IsInteractive := True\<rparr>)
   \<and> \<not> DebugEvalInDebugRepl (example_world\<lparr>DebugOnError := True, IsInteractive := True\<rparr>)
   \<and> run_lines example_runtime (Frame [] None) ['''', '':t on'']
        (example_world\<lparr>DebugOnError := True, IsInteractive := True\<rparr>)
      = Some (example_world\<lparr>DebugOnError := True, IsInteractive := True, DebugTrace := True\<rparr>)
   \<and> Parse example_runtime ''42'' = Returns (DInteger 42, None)
   \<and> Eval example_runtime (DInteger 42) (Frame [] None)
        (example_world\<lparr>DebugOnError := True, IsInteractive := True, DebugTrace := True,
                       DebugEvalInDebugRepl := True\<rparr>)
      = Evaluated (DInteger 42, None)
          (example_world\<lparr>DebugOnError := True, IsInteractive := True, DebugTrace := True,
                         DebugEvalInDebugRepl := True\<rparr>)
   \<and> ProcessError example_runtime
        ''vector-ref needs an index less than the vector length, but got 7.'' (Frame [] None)
        (example_world\<lparr>DebugOnError := True, IsInteractive := True\<rparr>)
        ['''', '':t on'', '':r 42'', '':q'']
      = Returns (None,
                 example_world\<lparr>DebugOnError := True, IsInteractive := True, DebugTrace := True,
                                DebugReturnValue := DInteger 42\<rparr>, ['':q''])
   \<and> consult_override
        (VectorRefImpl example_runtime [DVector example_vector, DInteger 7] (Frame [] None)
           (example_world\<lparr>DebugOnError := True, IsInteractive := True\<rparr>)
           ['''', '':t on'', '':r 42'', '':q''])
      = Returns ((DInteger 42, None),
                 example_world\<lparr>DebugOnError := True, IsInteractive := True, DebugTrace := True\<rparr>,
                 ['':q''])
   \<and> \<not> (DebugOnError example_world \<and> IsInteractive example_world
          \<and> \<not> DebugEvalInDebugRepl example_world)
   \<and> ProcessError example_runtime
        ''vector-ref needs an index less than the vector length, but got 7.'' (Frame [] None)
        example_world ['':r 42'']
      = Returns (Some ''vector-ref needs an index less than the vector length, but got 7.'',
                 example_world, ['':r 42''])"
proof -
  let ?wd = "example_world\<lparr>DebugOnError := True, IsInteractive := True\<rparr>"
  let ?w1 = "example_world\<lparr>DebugOnError := True, IsInteractive := True, DebugTrace := True\<rparr>"
  let ?w2 = "example_world\<lparr>DebugOnError := True, IsInteractive := True, DebugTrace := True,
                            DebugEvalInDebugRepl := True\<rparr>"
  let ?msg = "''vector-ref needs an index less than the vector length, but got 7.''"
  have on: "DebugOnError ?wd \<and> IsInteractive ?wd \<and> \<not> DebugEvalInDebugRepl ?wd"
    by (simp add: example_world_def)
  have off: "\<not> (DebugOnError example_world \<and> IsInteractive example_world
                \<and> \<not> DebugEvalInDebugRepl example_world)"
    by (simp add: example_world_def)
  have r: "run_lines example_runtime (Frame [] None) ['''', '':t on''] ?wd = Some ?w1"
    by (simp add: DebugRepl_body_def HasPrefix_def TrimPrefix_def DebugCommandPrefix_def
          processState_def)
  have p: "Parse example_runtime ''42'' = Returns (DInteger 42, None)"
    by (simp add: example_runtime_def)
  have e: "Eval example_runtime (DInteger 42) (Frame [] None) (?w1\<lparr>DebugEvalInDebugRepl := True\<rparr>)
             = Evaluated (DInteger 42, None) ?w2"
    by (simp add: example_runtime_def)
  note ret = ProcessError_policy [where rt = example_runtime and msg = ?msg
               and env = "Frame [] None" and w = ?wd and pre = "['''', '':t on'']" and ?w1.0 = ?w1
               and expr = "''42''" and code = "DInteger 42" and perr = None and d = "DInteger 42"
               and ?w2.0 = ?w2 and rest = "['':q'']",
               THEN conjunct2, THEN conjunct2, THEN conjunct2, THEN mp, OF conjI [OF
                 on [THEN conjunct1] conjI [OF on [THEN conjunct2, THEN conjunct1] conjI [OF
                 on [THEN conjunct2, THEN conjunct2] conjI [OF r conjI [OF p e]]]]]]
  have a: "ProcessError example_runtime ?msg (Frame [] None) ?wd
             ['''', '':t on'', '':r 42'', '':q'']
           = Returns (None,
                 example_world\<lparr>DebugOnError := True, IsInteractive := True, DebugTrace := True,
                                DebugReturnValue := DInteger 42\<rparr>, ['':q''])"
    using ret [THEN conjunct1] by (simp add: example_world_def)
  have seven: "Sprintf_d 7 = ''7''"
    by (simp add: Sprintf_d_def digits.simps)
  have "VectorRefImpl example_runtime [DVector example_vector, DInteger 7] (Frame [] None) ?wd
          ['''', '':t on'', '':r 42'', '':q'']
        = signal_error example_runtime ?msg (Frame [] None) ?wd
            ['''', '':t on'', '':r 42'', '':q'']"
    by (subst VectorRefImpl_index_too_large) (simp_all add: example_vector_def seven)
  then have b: "consult_override
        (VectorRefImpl example_runtime [DVector example_vector, DInteger 7] (Frame [] None) ?wd
           ['''', '':t on'', '':r 42'', '':q''])
      = Returns ((DInteger 42, None), ?w1, ['':q''])"
    using ret [THEN conjunct2, THEN conjunct2] by (simp add: example_world_def)
  have c: "ProcessError example_runtime ?msg (Frame [] None) example_world ['':r 42'']
             = Returns (Some ?msg, example_world, ['':r 42''])"
    using ProcessError_policy [where rt = example_runtime and msg = ?msg
            and env = "Frame [] None" and w = example_world and ls = "['':r 42'']",
            THEN conjunct2, THEN conjunct1, THEN mp, OF off] .
  from on r p e a b off c show ?thesis
    by (simp add: example_world_def)
qed

section \<open>Properties of the vector primitives\<close>

lemma signal_error_propagates:
  "\<not> (DebugOnError w \<and> IsInteractive w \<and> \<not> DebugEvalInDebugRepl w) \<Longrightarrow>
     signal_error rt msg env w ls = Returns ((DNil, Some msg), w, ls)"
  by (auto simp: signal_error_def ProcessError_def go_bind_def)

lemma VectorSetImpl_in_bounds:
  "0 \<le> sint k \<Longrightarrow> sint k < int (len v) \<Longrightarrow>
     VectorSetImpl rt [DVector v, DInteger k, x] env w ls
       = Returns ((StringWithValue ''OK'', None), store_elem w v (nat (sint k)) x, ls)"
  by (simp add: VectorSetImpl_def First_def Second_def Third_def VectorP_def IntegerP_def
        IntegerValue_def assign_slice_def go_bind_def)

lemma VectorRefImpl_in_bounds:
  "0 \<le> sint k \<Longrightarrow> sint k < int (len v) \<Longrightarrow>
     VectorRefImpl rt [DVector v, DInteger k] env w ls
       = Returns ((load_elem w v (nat (sint k)), None), w, ls)"
  by (simp add: VectorRefImpl_def First_def Second_def VectorP_def IntegerP_def
        IntegerValue_def index_slice_def go_bind_def)

lemma load_store_same_cell:
  "arr v' = arr v \<Longrightarrow> off v' + i' = off v + i \<Longrightarrow> off v + i < length (heap w (arr v)) \<Longrightarrow>
     load_elem (store_elem w v i x) v' i' = x"
  by (simp add: load_elem_def store_elem_def)

lemma load_store_other_array:
  "arr v' \<noteq> arr v \<Longrightarrow> load_elem (store_elem w v i x) v' i' = load_elem w v' i'"
  by (simp add: load_elem_def store_elem_def)

lemma VectorSet_then_VectorRef:
  assumes "valid_slice w v" and "0 \<le> sint k" and "sint k < int (len v)"
  shows "VectorSetImpl rt [DVector v, DInteger k, x] env w ls
           = Returns ((StringWithValue ''OK'', None), store_elem w v (nat (sint k)) x, ls)
         \<and> VectorRefImpl rt [DVector v, DInteger k] env (store_elem w v (nat (sint k)) x) ls
           = Returns ((x, None), store_elem w v (nat (sint k)) x, ls)"
proof -
  from assms(2,3) have "nat (sint k) < len v"
    by linarith
  with assms(1) have "off v + nat (sint k) < length (heap w (arr v))"
    by (simp add: valid_slice_def)
  then have "load_elem (store_elem w v (nat (sint k)) x) v (nat (sint k)) = x"
    by (simp add: load_store_same_cell)
  with assms show ?thesis
    by (simp add: VectorSetImpl_in_bounds VectorRefImpl_in_bounds)
qed

text \<open>
  C1. \<open>VectorSetImpl\<close> has no bounds check: index 5 on a vector of length 2 is Go's
  run-time panic for an index out of range, not an error returned. \<open>VectorRefImpl\<close>
  checks the index against the length only, so index -1 is the same panic.
\<close>

theorem Vector_index_out_of_bounds_panics:
  "VectorSetImpl rt [DVector \<lparr>arr = a, off = 0, len = 2, cap = 2\<rparr>, IntegerWithValue 5, x]
     env w ls = Panics IndexOutOfRange
   \<and> VectorSetImpl rt [DVector \<lparr>arr = a, off = 0, len = 2, cap = 2\<rparr>, IntegerWithValue (- 1), x]
     env w ls = Panics IndexOutOfRange
   \<and> VectorRefImpl rt [DVector \<lparr>arr = a, off = 0, len = 2, cap = 2\<rparr>, IntegerWithValue (- 1)]
     env w ls = Panics IndexOutOfRange"
  by (simp add: VectorSetImpl_def VectorRefImpl_def First_def Second_def Third_def VectorP_def
        IntegerP_def IntegerValue_def IntegerWithValue_def assign_slice_def index_slice_def
        go_bind_def)

text \<open>
  C10. \<open>vector-binary-search\<close> is registered with the arity 4 and bound to
  \<open>VectorBinarySearchImpl\<close>, which for every argument list returns a nil result and a nil
  error and leaves the world as it is.
\<close>

theorem VectorBinarySearchImpl_stub:
  "map_of RegisterVectorPrimitives ''vector-binary-search''
     = Some (''4'', ''VectorBinarySearchImpl'')
   \<and> VectorBinarySearchImpl rt args env w ls = Returns ((DNil, None), w, ls)"
  by (simp add: RegisterVectorPrimitives_def VectorBinarySearchImpl_def)

lemma take_Suc_list_update:
  "n < length h \<Longrightarrow> take (Suc n) (h[n := x]) = take n h @ [x]"
  by (simp add: take_Suc_conv_app_nth)

lemma store_elems_Nil: "store_elems w v i [] = w"
  by (simp add: store_elems_def)

lemma store_elems_Cons:
  "off v + i < length (heap w (arr v)) \<Longrightarrow>
     store_elems (store_elem w v i x) v (Suc i) xs = store_elems w v i (x # xs)"
  by (simp add: store_elems_def store_elem_def take_Suc_list_update)

lemma length_heap_store_elem:
  "length (heap (store_elem w v i x) a) = length (heap w a)"
  by (simp add: store_elem_def)

lemma range_assign_stores:
  "i + length xs \<le> len vals \<Longrightarrow> off vals + len vals \<le> length (heap w (arr vals)) \<Longrightarrow>
     range_assign w vals i xs = Returns (store_elems w vals i xs)"
proof (induction xs arbitrary: w i)
  case Nil
  show ?case by (simp add: store_elems_Nil)
next
  case (Cons x xs)
  from Cons.prems have i: "i < len vals" and cell: "off vals + i < length (heap w (arr vals))"
    by simp_all
  have step: "assign_slice w vals (int i) x = Returns (store_elem w vals i x)"
    using i by (simp add: assign_slice_def)
  have "range_assign (store_elem w vals i x) vals (Suc i) xs
          = Returns (store_elems (store_elem w vals i x) vals (Suc i) xs)"
    using Cons.prems by (intro Cons.IH) (simp_all add: length_heap_store_elem)
  with step cell show ?case
    by (simp add: go_bind_def store_elems_Cons)
qed

lemma foldl_append_slice_stores:
  "len s + length xs \<le> cap s \<Longrightarrow> off s + cap s \<le> length (heap w (arr s)) \<Longrightarrow>
     foldl append_slice (s, w) xs
       = (s\<lparr>len := len s + length xs\<rparr>, store_elems w s (len s) xs)"
proof (induction xs arbitrary: s w)
  case Nil
  show ?case by (simp add: store_elems_Nil)
next
  case (Cons x xs)
  from Cons.prems have room: "len s < cap s" and cell: "off s + len s < length (heap w (arr s))"
    by simp_all
  have step: "append_slice (s, w) x = (s\<lparr>len := Suc (len s)\<rparr>, store_elem w s (len s) x)"
    using room by (simp add: append_slice_def)
  have "foldl append_slice (s\<lparr>len := Suc (len s)\<rparr>, store_elem w s (len s) x) xs
          = (s\<lparr>len := Suc (len s), len := len (s\<lparr>len := Suc (len s)\<rparr>) + length xs\<rparr>,
             store_elems (store_elem w s (len s) x) (s\<lparr>len := Suc (len s)\<rparr>) (Suc (len s)) xs)"
    using Cons.prems
    by (subst Cons.IH) (simp_all add: length_heap_store_elem)
  moreover have "store_elems (store_elem w s (len s) x) (s\<lparr>len := Suc (len s)\<rparr>) (Suc (len s)) xs
                   = store_elems w s (len s) (x # xs)"
    using store_elems_Cons [OF cell, of x xs]
    by (simp add: store_elems_def store_elem_def)
  ultimately show ?case
    using step by simp
qed

lemma length_elements:
  "valid_slice w v \<Longrightarrow> length (elements w v) = len v"
  by (auto simp: elements_def valid_slice_def)

lemma nth_elements:
  "valid_slice w v \<Longrightarrow> i < len v \<Longrightarrow> elements w v ! i = load_elem w v i"
  by (simp add: elements_def load_elem_def valid_slice_def)

lemma set_then_ref_same_cell:
  assumes "0 \<le> sint i" and "sint i < int (len a)" and "0 \<le> sint i'" and "sint i' < int (len b)"
    and "arr b = arr a" and "off b + nat (sint i') = off a + nat (sint i)"
    and "off a + nat (sint i) < length (heap w (arr a))"
  shows "set_then_ref rt (DVector a) (DInteger i) x (DVector b) (DInteger i') env w ls
           = Returns ((x, None), store_elem w a (nat (sint i)) x, ls)"
  using assms
  by (simp add: set_then_ref_def VectorSetImpl_in_bounds VectorRefImpl_in_bounds go_bind_def
        load_store_same_cell)

lemma set_then_ref_other_array:
  assumes "0 \<le> sint i" and "sint i < int (len a)" and "0 \<le> sint i'" and "sint i' < int (len b)"
    and "arr b \<noteq> arr a"
  shows "set_then_ref rt (DVector a) (DInteger i) x (DVector b) (DInteger i') env w ls
           = Returns ((load_elem w b (nat (sint i')), None), store_elem w a (nat (sint i)) x, ls)"
  using assms
  by (simp add: set_then_ref_def VectorSetImpl_in_bounds VectorRefImpl_in_bounds go_bind_def
        load_store_other_array)

lemma SubVectorImpl_in_range:
  assumes "0 \<le> sint s" and "sint s < int (len v)" and "sint s \<le> sint e"
    and "sint e \<le> int (len v)"
  shows "SubVectorImpl rt [DVector v, DInteger s, DInteger e] env w ls
           = Returns ((DVector (reslice v (nat (sint s)) (nat (sint e))), None), w, ls)"
  using assms
  by (simp add: SubVectorImpl_def First_def Second_def Third_def VectorP_def IntegerP_def
        IntegerValue_def VectorWithValue_def)

lemma VectorHeadImpl_in_range:
  assumes "0 \<le> sint e" and "sint e \<le> int (len v)"
  shows "VectorHeadImpl rt [DVector v, DInteger e] env w ls
           = Returns ((DVector (reslice v 0 (nat (sint e))), None), w, ls)"
  using assms
  by (simp add: VectorHeadImpl_def First_def Second_def VectorP_def IntegerP_def
        IntegerValue_def VectorWithValue_def)

lemma VectorTailImpl_in_range:
  assumes "0 \<le> sint s" and "sint s \<le> int (len v)"
  shows "VectorTailImpl rt [DVector v, DInteger s] env w ls
           = Returns ((DVector (reslice v (nat (sint s)) (len v)), None), w, ls)"
  using assms
  by (simp add: VectorTailImpl_def First_def Second_def VectorP_def IntegerP_def
        IntegerValue_def VectorWithValue_def)

lemma VectorCopyImpl_copies:
  assumes "valid_slice w v"
  shows "VectorCopyImpl rt [DVector v] env w ls
           = Returns ((DVector \<lparr>arr = brk w, off = 0, len = len v, cap = len v\<rparr>, None),
                      w\<lparr>heap := (heap w)(brk w := elements w v), brk := Suc (brk w)\<rparr>, ls)"
proof -
  let ?s = "\<lparr>arr = brk w, off = 0, len = 0, cap = len v\<rparr>"
  let ?w1 = "w\<lparr>heap := (heap w)(brk w := replicate (len v) DNil), brk := Suc (brk w)\<rparr>"
  have n: "length (elements w v) = len v"
    using assms by (rule length_elements)
  have "foldl append_slice (?s, ?w1) (elements w v)
          = (?s\<lparr>len := len ?s + length (elements w v)\<rparr>,
             store_elems ?w1 ?s (len ?s) (elements w v))"
    by (rule foldl_append_slice_stores) (simp_all add: n)
  also have "\<dots> = (\<lparr>arr = brk w, off = 0, len = len v, cap = len v\<rparr>,
                    w\<lparr>heap := (heap w)(brk w := elements w v), brk := Suc (brk w)\<rparr>)"
    by (simp add: n store_elems_def)
  finally show ?thesis
    by (simp add: VectorCopyImpl_def First_def VectorP_def fresh_array_def VectorWithValue_def)
qed

lemma elements_whole:
  "off s = 0 \<Longrightarrow> length (heap w (arr s)) = len s \<Longrightarrow> elements w s = heap w (arr s)"
  by (simp add: elements_def)

lemma VectorGrowImpl_larger:
  assumes "valid_slice w v" and "int (len v) < sint k" and "sint k \<le> int (MaxSliceLen rt)"
  shows "VectorGrowImpl rt [DVector v, DInteger k] env w ls
           = Returns ((DVector \<lparr>arr = brk w, off = 0, len = nat (sint k), cap = nat (sint k)\<rparr>,
                       None),
                      w\<lparr>heap := (heap w)(brk w :=
                           elements w v @ replicate (nat (sint k) - len v) DNil),
                        brk := Suc (brk w)\<rparr>, ls)"
proof -
  let ?n = "nat (sint k)"
  let ?vals = "\<lparr>arr = brk w, off = 0, len = ?n, cap = ?n\<rparr>"
  let ?w1 = "w\<lparr>heap := (heap w)(brk w := replicate ?n DNil), brk := Suc (brk w)\<rparr>"
  have n: "length (elements w v) = len v"
    using assms(1) by (rule length_elements)
  have le: "len v \<le> ?n"
    using assms(2) by linarith
  have el: "elements ?w1 v = elements w v"
    using assms(1) by (simp add: elements_def valid_slice_def)
  have mk: "make_slice rt w (sint k) = Returns (?vals, ?w1)"
    using assms(2,3) by (simp add: make_slice_def fresh_array_def)
  have "range_assign ?w1 ?vals 0 (elements w v) = Returns (store_elems ?w1 ?vals 0 (elements w v))"
    by (rule range_assign_stores) (simp_all add: n le)
  moreover have "store_elems ?w1 ?vals 0 (elements w v)
                   = w\<lparr>heap := (heap w)(brk w := elements w v @ replicate (?n - len v) DNil),
                       brk := Suc (brk w)\<rparr>"
    by (simp add: store_elems_def n)
  ultimately have "range_assign ?w1 ?vals 0 (elements ?w1 v)
                     = Returns (w\<lparr>heap := (heap w)(brk w :=
                                    elements w v @ replicate (?n - len v) DNil),
                                  brk := Suc (brk w)\<rparr>)"
    by (simp add: el)
  with assms(2) mk show ?thesis
    by (simp add: VectorGrowImpl_def First_def Second_def VectorP_def IntegerP_def
          IntegerValue_def VectorWithValue_def go_bind_def)
qed

lemma VectorGrowImpl_too_large:
  assumes "int (len v) < sint k" and "int (MaxSliceLen rt) < sint k"
  shows "VectorGrowImpl rt [DVector v, DInteger k] env w ls = Panics MakeSliceLenOutOfRange"
  using assms
  by (simp add: VectorGrowImpl_def First_def Second_def VectorP_def IntegerP_def
        IntegerValue_def make_slice_def go_bind_def)

lemma signal_error_rerouted:
  "DebugOnError w \<and> IsInteractive w \<and> \<not> DebugEvalInDebugRepl w \<Longrightarrow>
     signal_error rt msg env w ls
       = go_bind (DebugRepl rt env ls w) (\<lambda>(w', ls'). Returns ((DNil, None), w', ls'))"
  by (cases "DebugRepl rt env ls w") (auto simp: signal_error_def ProcessError_def go_bind_def)

lemma valid_example_vector: "valid_slice example_world example_vector"
  by (simp add: valid_slice_def example_world_def example_vector_def)

lemma elements_example_vector:
  "elements example_world example_vector = [DInteger 10, DInteger 20, DInteger 30]"
  by (simp add: elements_def example_world_def example_vector_def)

text \<open>
  C8, as the claim states it, fails at two inputs. A new size beyond the largest length
  that \<open>make\<close> allocates is larger than the length of the vector, and the call panics
  instead of returning a vector. And with break-on-error enabled in an interactive run,
  a new size that is not larger than the length does not fail: the debugger takes the
  failure over, and after its command \<open>:c\<close> the call returns no result and no error.
\<close>

theorem VectorGrowImpl_claim_counterexample:
  "VectorGrowImpl example_runtime [DVector example_vector, DInteger 4611686018427387904]
     (Frame [] None) example_world []
     = Panics MakeSliceLenOutOfRange
   \<and> VectorGrowImpl example_runtime [DVector example_vector, DInteger 2]
       (Frame [] None) (example_world\<lparr>DebugOnError := True, IsInteractive := True\<rparr>) ['':c'']
     = Returns ((DNil, None), example_world\<lparr>DebugOnError := True, IsInteractive := True\<rparr>, [])"
proof
  show "VectorGrowImpl example_runtime [DVector example_vector, DInteger 4611686018427387904]
          (Frame [] None) example_world []
        = Panics MakeSliceLenOutOfRange"
    by (rule VectorGrowImpl_too_large)
       (simp_all add: example_vector_def example_runtime_def)
  show "VectorGrowImpl example_runtime [DVector example_vector, DInteger 2]
          (Frame [] None) (example_world\<lparr>DebugOnError := True, IsInteractive := True\<rparr>) ['':c'']
        = Returns ((DNil, None), example_world\<lparr>DebugOnError := True, IsInteractive := True\<rparr>, [])"
    by (simp add: VectorGrowImpl_def First_def Second_def VectorP_def IntegerP_def
          IntegerValue_def example_vector_def signal_error_def ProcessError_def go_bind_def
          DebugRepl_body_def HasPrefix_def TrimPrefix_def DebugCommandPrefix_def
          example_world_def)
qed

text \<open>
  C8, amended. For a well-formed vector: when the new size is not larger than the length
  of the vector, \<open>VectorGrowImpl\<close> allocates nothing and raises the failure of its message
  through \<open>ProcessError\<close>; unless break-on-error is enabled, execution is interactive and
  the failure is not from the debugger's prompt, the error is returned with no result,
  the world as it was; in that other case the failure goes to the command loop, and
  what the call returns, once the loop has returned, is no result and no error. When the
  new size is larger than the length and within the largest length that \<open>make\<close>
  allocates, it returns a vector of that length on a fresh backing array, whose first
  elements are the elements of the vector given, in order, the others nil; the vector
  given keeps its elements (and, a slice being a value, its length). When the new size is
  beyond that largest length, the call panics.
\<close>

theorem VectorGrowImpl_new_vector:
  assumes "valid_slice w v"
  shows "(sint k \<le> int (len v) \<longrightarrow>
            VectorGrowImpl rt [DVector v, DInteger k] env w ls
              = signal_error rt
                  (''vector-grow needs a new size that is larger than the size of its vector argument (''
                   @ Sprintf_d (int (len v)) @ ''), but got '' @ Sprintf_s_int64 k @ ''.'')
                  env w ls
            \<and> (\<not> (DebugOnError w \<and> IsInteractive w \<and> \<not> DebugEvalInDebugRepl w) \<longrightarrow>
                 VectorGrowImpl rt [DVector v, DInteger k] env w ls
                   = Returns ((DNil, Some
                       (''vector-grow needs a new size that is larger than the size of its vector argument (''
                        @ Sprintf_d (int (len v)) @ ''), but got '' @ Sprintf_s_int64 k @ ''.'')),
                       w, ls))
            \<and> (DebugOnError w \<and> IsInteractive w \<and> \<not> DebugEvalInDebugRepl w \<longrightarrow>
                 VectorGrowImpl rt [DVector v, DInteger k] env w ls
                   = go_bind (DebugRepl rt env ls w)
                       (\<lambda>(w', ls'). Returns ((DNil, None), w', ls'))))
       \<and> (int (len v) < sint k \<and> sint k \<le> int (MaxSliceLen rt) \<longrightarrow>
            (\<exists>vals w'. VectorGrowImpl rt [DVector v, DInteger k] env w ls
                          = Returns ((DVector vals, None), w', ls)
               \<and> len vals = nat (sint k)
               \<and> arr vals \<noteq> arr v
               \<and> take (len v) (elements w' vals) = elements w v
               \<and> drop (len v) (elements w' vals) = replicate (nat (sint k) - len v) DNil
               \<and> elements w' v = elements w v
               \<and> heap w' (arr v) = heap w (arr v)
               \<and> valid_slice w' vals \<and> valid_slice w' v))
       \<and> (int (len v) < sint k \<and> int (MaxSliceLen rt) < sint k \<longrightarrow>
            VectorGrowImpl rt [DVector v, DInteger k] env w ls = Panics MakeSliceLenOutOfRange)"
proof (intro conjI impI)
  assume small: "sint k \<le> int (len v)"
  then show fails: "VectorGrowImpl rt [DVector v, DInteger k] env w ls
      = signal_error rt
          (''vector-grow needs a new size that is larger than the size of its vector argument (''
           @ Sprintf_d (int (len v)) @ ''), but got '' @ Sprintf_s_int64 k @ ''.'')
          env w ls"
    by (simp add: VectorGrowImpl_def First_def Second_def VectorP_def IntegerP_def
          IntegerValue_def)
  {
    assume "\<not> (DebugOnError w \<and> IsInteractive w \<and> \<not> DebugEvalInDebugRepl w)"
    then show "VectorGrowImpl rt [DVector v, DInteger k] env w ls
        = Returns ((DNil, Some
            (''vector-grow needs a new size that is larger than the size of its vector argument (''
             @ Sprintf_d (int (len v)) @ ''), but got '' @ Sprintf_s_int64 k @ ''.'')),
            w, ls)"
      unfolding fails by (rule signal_error_propagates)
  }
  {
    assume "DebugOnError w \<and> IsInteractive w \<and> \<not> DebugEvalInDebugRepl w"
    then show "VectorGrowImpl rt [DVector v, DInteger k] env w ls
        = go_bind (DebugRepl rt env ls w) (\<lambda>(w', ls'). Returns ((DNil, None), w', ls'))"
      unfolding fails by (rule signal_error_rerouted)
  }
next
  assume "int (len v) < sint k \<and> int (MaxSliceLen rt) < sint k"
  then show "VectorGrowImpl rt [DVector v, DInteger k] env w ls = Panics MakeSliceLenOutOfRange"
    by (intro VectorGrowImpl_too_large) simp_all
next
  assume "int (len v) < sint k \<and> sint k \<le> int (MaxSliceLen rt)"
  then have large: "int (len v) < sint k" and fits: "sint k \<le> int (MaxSliceLen rt)"
    by simp_all
  let ?vals = "\<lparr>arr = brk w, off = 0, len = nat (sint k), cap = nat (sint k)\<rparr>"
  let ?w' = "w\<lparr>heap := (heap w)(brk w := elements w v @ replicate (nat (sint k) - len v) DNil),
               brk := Suc (brk w)\<rparr>"
  have n: "length (elements w v) = len v"
    using assms by (rule length_elements)
  have le: "len v \<le> nat (sint k)"
    using large by linarith
  have fresh: "arr v \<noteq> brk w"
    using assms by (simp add: valid_slice_def)
  have "VectorGrowImpl rt [DVector v, DInteger k] env w ls = Returns ((DVector ?vals, None), ?w', ls)"
    using assms large fits by (rule VectorGrowImpl_larger)
  moreover have "len ?vals = nat (sint k)"
    by simp
  moreover have "arr ?vals \<noteq> arr v"
    using fresh by simp
  moreover have whole: "elements ?w' ?vals
                          = elements w v @ replicate (nat (sint k) - len v) DNil"
    using le by (subst elements_whole) (simp_all add: n)
  moreover have "take (len v) (elements ?w' ?vals) = elements w v"
    unfolding whole by (simp add: n)
  moreover have "drop (len v) (elements ?w' ?vals) = replicate (nat (sint k) - len v) DNil"
    unfolding whole by (simp add: n)
  moreover have "elements ?w' v = elements w v"
    using fresh by (simp add: elements_def)
  moreover have "heap ?w' (arr v) = heap w (arr v)"
    using fresh by simp
  moreover have "valid_slice ?w' ?vals"
    using le by (simp add: valid_slice_def n)
  moreover have "valid_slice ?w' v"
    using assms fresh by (simp add: valid_slice_def)
  ultimately show "\<exists>vals w'. VectorGrowImpl rt [DVector v, DInteger k] env w ls
                              = Returns ((DVector vals, None), w', ls)
               \<and> len vals = nat (sint k)
               \<and> arr vals \<noteq> arr v
               \<and> take (len v) (elements w' vals) = elements w v
               \<and> drop (len v) (elements w' vals) = replicate (nat (sint k) - len v) DNil
               \<and> elements w' v = elements w v
               \<and> heap w' (arr v) = heap w (arr v)
               \<and> valid_slice w' vals \<and> valid_slice w' v"
    by blast
qed

theorem VectorGrowImpl_new_vector_witness:
  "valid_slice example_world example_vector
   \<and> sint (2 :: int64) \<le> int (len example_vector)
   \<and> \<not> (DebugOnError example_world \<and> IsInteractive example_world
          \<and> \<not> DebugEvalInDebugRepl example_world)
   \<and> VectorGrowImpl example_runtime [DVector example_vector, DInteger 2] (Frame [] None)
        example_world []
      = Returns ((DNil, Some
          ''vector-grow needs a new size that is larger than the size of its vector argument (3), but got %!s(int64=2).''),
          example_world, [])
   \<and> int (len example_vector) < sint (5 :: int64)
   \<and> sint (5 :: int64) \<le> int (MaxSliceLen example_runtime)
   \<and> (\<exists>vals w'. VectorGrowImpl example_runtime [DVector example_vector, DInteger 5]
                    (Frame [] None) example_world []
                  = Returns ((DVector vals, None), w', [])
         \<and> len vals = 5
         \<and> arr vals \<noteq> arr example_vector
         \<and> elements w' vals = [DInteger 10, DInteger 20, DInteger 30, DNil, DNil]
         \<and> elements w' example_vector = [DInteger 10, DInteger 20, DInteger 30])
   \<and> int (len example_vector) < sint (4611686018427387904 :: int64)
   \<and> int (MaxSliceLen example_runtime) < sint (4611686018427387904 :: int64)
   \<and> VectorGrowImpl example_runtime [DVector example_vector, DInteger 4611686018427387904]
        (Frame [] None) example_world []
      = Panics MakeSliceLenOutOfRange"
proof -
  have small: "sint (2 :: int64) \<le> int (len example_vector)"
    by (simp add: example_vector_def)
  have large: "int (len example_vector) < sint (5 :: int64)"
    by (simp add: example_vector_def)
  have fits: "sint (5 :: int64) \<le> int (MaxSliceLen example_runtime)"
    by (simp add: example_runtime_def)
  have huge: "int (len example_vector) < sint (4611686018427387904 :: int64)"
    by (simp add: example_vector_def)
  have beyond: "int (MaxSliceLen example_runtime) < sint (4611686018427387904 :: int64)"
    by (simp add: example_runtime_def)
  have off: "\<not> (DebugOnError example_world \<and> IsInteractive example_world
                \<and> \<not> DebugEvalInDebugRepl example_world)"
    by (simp add: example_world_def)
  have three: "Sprintf_d 3 = ''3''" and two: "Sprintf_d 2 = ''2''"
    by (simp_all add: Sprintf_d_def digits.simps)
  note grow = VectorGrowImpl_new_vector [OF valid_example_vector, of _ example_runtime
                "Frame [] None" "[]"]
  from grow [of 2, THEN conjunct1, THEN mp, OF small, THEN conjunct2, THEN conjunct1,
             THEN mp, OF off]
  have a: "VectorGrowImpl example_runtime [DVector example_vector, DInteger 2] (Frame [] None)
             example_world []
           = Returns ((DNil, Some
               ''vector-grow needs a new size that is larger than the size of its vector argument (3), but got %!s(int64=2).''),
               example_world, [])"
    by (simp add: example_vector_def Sprintf_s_int64_def three two)
  from grow [of 5, THEN conjunct2, THEN conjunct1, THEN mp, OF conjI [OF large fits]]
  obtain vals w' where g: "VectorGrowImpl example_runtime [DVector example_vector, DInteger 5]
                             (Frame [] None) example_world []
                           = Returns ((DVector vals, None), w', [])"
      and l: "len vals = nat (sint (5 :: int64))" and d: "arr vals \<noteq> arr example_vector"
      and t: "take (len example_vector) (elements w' vals)
                = elements example_world example_vector"
      and r: "drop (len example_vector) (elements w' vals)
                = replicate (nat (sint (5 :: int64)) - len example_vector) DNil"
      and e: "elements w' example_vector = elements example_world example_vector"
    by blast
  have len3: "len example_vector = 3"
    by (simp add: example_vector_def)
  have "elements w' vals = take (len example_vector) (elements w' vals)
                           @ drop (len example_vector) (elements w' vals)"
    by simp
  then have all: "elements w' vals = [DInteger 10, DInteger 20, DInteger 30, DNil, DNil]"
    unfolding t r by (simp add: elements_example_vector len3 eval_nat_numeral)
  from l have l5: "len vals = 5"
    by simp
  from e have e3: "elements w' example_vector = [DInteger 10, DInteger 20, DInteger 30]"
    by (simp add: elements_example_vector)
  note p = grow [of 4611686018427387904, THEN conjunct2, THEN conjunct2, THEN mp,
                 OF conjI [OF huge beyond]]
  from g l5 d all e3 valid_example_vector small large fits off a huge beyond p show ?thesis
    by blast
qed

lemma VectorCopyImpl_then_set_ref:
  assumes valid: "valid_slice w v" and k0: "0 \<le> sint k" and klen: "sint k < int (len v)"
  shows "\<exists>c w1. VectorCopyImpl rt [DVector v] env w ls = Returns ((c, None), w1, ls)
           \<and> (\<exists>w'. set_then_ref rt c (DInteger k) x (DVector v) (DInteger k) env w1 ls
                      = Returns ((load_elem w v (nat (sint k)), None), w', ls))
           \<and> (\<exists>w'. set_then_ref rt (DVector v) (DInteger k) x c (DInteger k) env w1 ls
                      = Returns ((load_elem w v (nat (sint k)), None), w', ls))"
proof -
  let ?c = "\<lparr>arr = brk w, off = 0, len = len v, cap = len v\<rparr>"
  let ?w1 = "w\<lparr>heap := (heap w)(brk w := elements w v), brk := Suc (brk w)\<rparr>"
  have fresh: "arr v \<noteq> brk w"
    using valid by (simp add: valid_slice_def)
  have kn: "nat (sint k) < len v"
    using k0 klen by linarith
  have copy: "VectorCopyImpl rt [DVector v] env w ls = Returns ((DVector ?c, None), ?w1, ls)"
    using valid by (rule VectorCopyImpl_copies)
  have old_v: "load_elem ?w1 v (nat (sint k)) = load_elem w v (nat (sint k))"
    using fresh by (simp add: load_elem_def)
  have old_c: "load_elem ?w1 ?c (nat (sint k)) = load_elem w v (nat (sint k))"
    using nth_elements [OF valid kn] by (simp add: load_elem_def)
  have "set_then_ref rt (DVector ?c) (DInteger k) x (DVector v) (DInteger k) env ?w1 ls
          = Returns ((load_elem ?w1 v (nat (sint k)), None),
                     store_elem ?w1 ?c (nat (sint k)) x, ls)"
    using k0 klen fresh by (intro set_then_ref_other_array) simp_all
  moreover
  have "set_then_ref rt (DVector v) (DInteger k) x (DVector ?c) (DInteger k) env ?w1 ls
          = Returns ((load_elem ?w1 ?c (nat (sint k)), None),
                     store_elem ?w1 v (nat (sint k)) x, ls)"
    using k0 klen fresh by (intro set_then_ref_other_array) simp_all
  ultimately show ?thesis
    unfolding old_v old_c using copy by blast
qed

text \<open>
  C9. For a well-formed vector \<open>v\<close> and a range \<open>s\<close> to \<open>e\<close> within it: the vectors that
  \<open>subvector\<close>, \<open>vector-head\<close> and \<open>vector-tail\<close> return share the elements of \<open>v\<close>. A
  value written with \<open>vector-set!\<close> at position \<open>j\<close> of the subvector or of the tail is
  what \<open>vector-ref\<close> reads at position \<open>s + j\<close> of \<open>v\<close>, and a value written at position
  \<open>k\<close> of the head is read at position \<open>k\<close> of \<open>v\<close>; the same holds with the roles of the
  two vectors exchanged. The vector that \<open>vector-copy\<close> returns does not share: after a
  write to the copy \<open>v\<close> still reads its old element, and the other way round.
\<close>

theorem subvectors_share_storage:
  assumes valid: "valid_slice w v"
    and s0: "0 \<le> sint s" and j0: "0 \<le> sint j" and k: "sint k = sint s + sint j"
    and ke: "sint k < sint e" and elen: "sint e \<le> int (len v)"
  shows "(\<exists>r. SubVectorImpl rt [DVector v, DInteger s, DInteger e] env w ls
                 = Returns ((r, None), w, ls)
            \<and> (\<exists>w'. set_then_ref rt r (DInteger j) x (DVector v) (DInteger k) env w ls
                       = Returns ((x, None), w', ls))
            \<and> (\<exists>w'. set_then_ref rt (DVector v) (DInteger k) x r (DInteger j) env w ls
                       = Returns ((x, None), w', ls)))
       \<and> (\<exists>r. VectorHeadImpl rt [DVector v, DInteger e] env w ls
                 = Returns ((r, None), w, ls)
            \<and> (\<exists>w'. set_then_ref rt r (DInteger k) x (DVector v) (DInteger k) env w ls
                       = Returns ((x, None), w', ls))
            \<and> (\<exists>w'. set_then_ref rt (DVector v) (DInteger k) x r (DInteger k) env w ls
                       = Returns ((x, None), w', ls)))
       \<and> (\<exists>r. VectorTailImpl rt [DVector v, DInteger s] env w ls
                 = Returns ((r, None), w, ls)
            \<and> (\<exists>w'. set_then_ref rt r (DInteger j) x (DVector v) (DInteger k) env w ls
                       = Returns ((x, None), w', ls))
            \<and> (\<exists>w'. set_then_ref rt (DVector v) (DInteger k) x r (DInteger j) env w ls
                       = Returns ((x, None), w', ls)))
       \<and> (\<exists>c w1. VectorCopyImpl rt [DVector v] env w ls = Returns ((c, None), w1, ls)
            \<and> (\<exists>w'. set_then_ref rt c (DInteger k) x (DVector v) (DInteger k) env w1 ls
                       = Returns ((load_elem w v (nat (sint k)), None), w', ls))
            \<and> (\<exists>w'. set_then_ref rt (DVector v) (DInteger k) x c (DInteger k) env w1 ls
                       = Returns ((load_elem w v (nat (sint k)), None), w', ls)))"
proof -
  have k0: "0 \<le> sint k" and klen: "sint k < int (len v)" and slen: "sint s < int (len v)"
    and se: "sint s \<le> sint e" and e0: "0 \<le> sint e"
    using s0 j0 k ke elen by linarith+
  have kn: "nat (sint k) = nat (sint s) + nat (sint j)"
    using s0 j0 k by linarith
  have cell: "off v + nat (sint k) < length (heap w (arr v))"
    using valid k0 klen by (simp add: valid_slice_def) linarith
  let ?sub = "reslice v (nat (sint s)) (nat (sint e))"
  let ?head = "reslice v 0 (nat (sint e))"
  let ?tail = "reslice v (nat (sint s)) (len v)"
  have jsub: "sint j < int (len ?sub)" and khead: "sint k < int (len ?head)"
    and jtail: "sint j < int (len ?tail)"
    using s0 j0 k ke elen by (auto simp: reslice_def)
  have parts: "arr ?sub = arr v" "off ?sub = off v + nat (sint s)"
    "arr ?head = arr v" "off ?head = off v"
    "arr ?tail = arr v" "off ?tail = off v + nat (sint s)"
    by (simp_all add: reslice_def)
  have sub: "SubVectorImpl rt [DVector v, DInteger s, DInteger e] env w ls
               = Returns ((DVector ?sub, None), w, ls)"
    using s0 slen se elen by (rule SubVectorImpl_in_range)
  have sub1: "set_then_ref rt (DVector ?sub) (DInteger j) x (DVector v) (DInteger k) env w ls
                = Returns ((x, None), store_elem w ?sub (nat (sint j)) x, ls)"
    using j0 jsub k0 klen cell by (intro set_then_ref_same_cell) (simp_all add: parts kn)
  have sub2: "set_then_ref rt (DVector v) (DInteger k) x (DVector ?sub) (DInteger j) env w ls
                = Returns ((x, None), store_elem w v (nat (sint k)) x, ls)"
    using j0 jsub k0 klen cell by (intro set_then_ref_same_cell) (simp_all add: parts kn)
  have head: "VectorHeadImpl rt [DVector v, DInteger e] env w ls
                = Returns ((DVector ?head, None), w, ls)"
    using e0 elen by (rule VectorHeadImpl_in_range)
  have head1: "set_then_ref rt (DVector ?head) (DInteger k) x (DVector v) (DInteger k) env w ls
                 = Returns ((x, None), store_elem w ?head (nat (sint k)) x, ls)"
    using khead k0 klen cell by (intro set_then_ref_same_cell) (simp_all add: parts)
  have head2: "set_then_ref rt (DVector v) (DInteger k) x (DVector ?head) (DInteger k) env w ls
                 = Returns ((x, None), store_elem w v (nat (sint k)) x, ls)"
    using khead k0 klen cell by (intro set_then_ref_same_cell) (simp_all add: parts)
  have tail: "VectorTailImpl rt [DVector v, DInteger s] env w ls
                = Returns ((DVector ?tail, None), w, ls)"
    using s0 slen by (intro VectorTailImpl_in_range) simp_all
  have tail1: "set_then_ref rt (DVector ?tail) (DInteger j) x (DVector v) (DInteger k) env w ls
                 = Returns ((x, None), store_elem w ?tail (nat (sint j)) x, ls)"
    using j0 jtail k0 klen cell by (intro set_then_ref_same_cell) (simp_all add: parts kn)
  have tail2: "set_then_ref rt (DVector v) (DInteger k) x (DVector ?tail) (DInteger j) env w ls
                 = Returns ((x, None), store_elem w v (nat (sint k)) x, ls)"
    using j0 jtail k0 klen cell by (intro set_then_ref_same_cell) (simp_all add: parts kn)
  show ?thesis
  proof (intro conjI)
    show "\<exists>r. SubVectorImpl rt [DVector v, DInteger s, DInteger e] env w ls
                 = Returns ((r, None), w, ls)
            \<and> (\<exists>w'. set_then_ref rt r (DInteger j) x (DVector v) (DInteger k) env w ls
                       = Returns ((x, None), w', ls))
            \<and> (\<exists>w'. set_then_ref rt (DVector v) (DInteger k) x r (DInteger j) env w ls
                       = Returns ((x, None), w', ls))"
      using sub sub1 sub2 by blast
    show "\<exists>r. VectorHeadImpl rt [DVector v, DInteger e] env w ls
                 = Returns ((r, None), w, ls)
            \<and> (\<exists>w'. set_then_ref rt r (DInteger k) x (DVector v) (DInteger k) env w ls
                       = Returns ((x, None), w', ls))
            \<and> (\<exists>w'. set_then_ref rt (DVector v) (DInteger k) x r (DInteger k) env w ls
                       = Returns ((x, None), w', ls))"
      using head head1 head2 by blast
    show "\<exists>r. VectorTailImpl rt [DVector v, DInteger s] env w ls
                 = Returns ((r, None), w, ls)
            \<and> (\<exists>w'. set_then_ref rt r (DInteger j) x (DVector v) (DInteger k) env w ls
                       = Returns ((x, None), w', ls))
            \<and> (\<exists>w'. set_then_ref rt (DVector v) (DInteger k) x r (DInteger j) env w ls
                       = Returns ((x, None), w', ls))"
      using tail tail1 tail2 by blast
    show "\<exists>c w1. VectorCopyImpl rt [DVector v] env w ls = Returns ((c, None), w1, ls)
            \<and> (\<exists>w'. set_then_ref rt c (DInteger k) x (DVector v) (DInteger k) env w1 ls
                       = Returns ((load_elem w v (nat (sint k)), None), w', ls))
            \<and> (\<exists>w'. set_then_ref rt (DVector v) (DInteger k) x c (DInteger k) env w1 ls
                       = Returns ((load_elem w v (nat (sint k)), None), w', ls))"
      using valid k0 klen by (rule VectorCopyImpl_then_set_ref)
  qed
qed

theorem subvectors_share_storage_witness:
  "valid_slice example_world example_vector
   \<and> 0 \<le> sint (1 :: int64)
   \<and> sint (2 :: int64) = sint (1 :: int64) + sint (1 :: int64)
   \<and> sint (2 :: int64) < sint (3 :: int64)
   \<and> sint (3 :: int64) \<le> int (len example_vector)
   \<and> load_elem example_world example_vector (nat (sint (2 :: int64))) = DInteger 30
   \<and> (\<exists>r. SubVectorImpl example_runtime [DVector example_vector, DInteger 1, DInteger 3]
              (Frame [] None) example_world []
            = Returns ((r, None), example_world, [])
        \<and> (\<exists>w'. set_then_ref example_runtime r (DInteger 1) (DString ''x'')
                    (DVector example_vector) (DInteger 2) (Frame [] None) example_world []
                  = Returns ((DString ''x'', None), w', []))
        \<and> (\<exists>w'. set_then_ref example_runtime (DVector example_vector) (DInteger 2) (DString ''x'')
                    r (DInteger 1) (Frame [] None) example_world []
                  = Returns ((DString ''x'', None), w', [])))
   \<and> (\<exists>c w1. VectorCopyImpl example_runtime [DVector example_vector] (Frame [] None)
                 example_world []
               = Returns ((c, None), w1, [])
        \<and> (\<exists>w'. set_then_ref example_runtime c (DInteger 2) (DString ''x'')
                    (DVector example_vector) (DInteger 2) (Frame [] None) w1 []
                  = Returns ((load_elem example_world example_vector (nat (sint (2 :: int64))),
                              None), w', []))
        \<and> (\<exists>w'. set_then_ref example_runtime (DVector example_vector) (DInteger 2) (DString ''x'')
                    c (DInteger 2) (Frame [] None) w1 []
                  = Returns ((load_elem example_world example_vector (nat (sint (2 :: int64))),
                              None), w', [])))"
proof -
  have s0: "0 \<le> sint (1 :: int64)"
    by simp
  have k: "sint (2 :: int64) = sint (1 :: int64) + sint (1 :: int64)"
    by simp
  have ke: "sint (2 :: int64) < sint (3 :: int64)"
    by simp
  have elen: "sint (3 :: int64) \<le> int (len example_vector)"
    by (simp add: example_vector_def)
  have old: "load_elem example_world example_vector (nat (sint (2 :: int64))) = DInteger 30"
    by (simp add: load_elem_def example_world_def example_vector_def)
  note share = subvectors_share_storage [OF valid_example_vector s0 s0 k ke elen,
                 of example_runtime "Frame [] None" "[]" "DString ''x''"]
  show ?thesis
    by (intro conjI valid_example_vector s0 k ke elen old share [THEN conjunct1]
          share [THEN conjunct2, THEN conjunct2, THEN conjunct2])
qed

end
